theory Spec2Isabelle
  imports Main
begin

section \<open>The document\<close>

text \<open>
  Elements are identified by a number (object identity in the source). The shape of a
  document is a tree of identities: every element has its light children and, when a
  shadow root is attached, the children of that shadow root. What an element carries
  (name, attributes, class list, inline style) is kept in a store indexed by identity,
  because that is the part the enhancer mutates in place.
\<close>

type_synonym nid = nat

datatype tree = Node (ident: nid) (childNodes: "tree list") (shadowRoot: "tree list option")

datatype exn = SecurityError | TypeError

text \<open>
  \<open>tag\<close> is the name of the element as a type selector compares it (\<open>svg\<close>,
  \<open>clipPath\<close>, \<open>img\<close>); where the source lower-cases \<open>tagName\<close> or
  \<open>nodeName\<close> the model applies \<open>toLowerCase\<close> to it.
  \<open>attrs\<close> holds the attributes, \<open>dataset.shinyOriginalStroke\<close> being the attribute
  \<open>data-shiny-original-stroke\<close> and so on. \<open>style\<close> is the inline style, a property
  that is not set reading as the empty string, as \<open>el.style.filter\<close> does.
  \<open>computedCursor\<close> is what \<open>getComputedStyle(el).cursor\<close> gives (or throws),
  \<open>contentDocument\<close> and \<open>getSVGDocument\<close> what the two accessors of an
  \<open>object\<close> or \<open>embed\<close> element give: they throw, or return no document, or the
  root element of the nested document (\<open>getSVGDocument\<close> may also not exist at all).
\<close>

record elem =
  tag :: string
  attrs :: "string \<Rightarrow> string option"
  classes :: "string set"
  style :: "string \<Rightarrow> string"
  computedCursor :: "exn + string"
  contentDocument :: "exn + tree option"
  getSVGDocument :: "(exn + tree option) option"

text \<open>
  A reference to a node gives the code the node's identity, everything below it and the
  chain of its ancestors, nearest first (which \<open>closest\<close> walks).
\<close>

record node =
  self :: tree
  ancestors :: "nid list"

text \<open>An element and everything below it in the light tree, in document order.\<close>

fun subnodes :: "nid list \<Rightarrow> tree \<Rightarrow> node list" where
  "subnodes anc (Node n ts sh) =
     \<lparr>self = Node n ts sh, ancestors = anc\<rparr> # concat (map (subnodes (n # anc)) ts)"

definition idOf :: "node \<Rightarrow> nid" where
  "idOf nd = ident (self nd)"

text \<open>\<open>el.querySelectorAll('*')\<close>: the light descendants in document order.\<close>

definition descendantNodes :: "node \<Rightarrow> node list" where
  "descendantNodes nd = concat (map (subnodes (idOf nd # ancestors nd)) (childNodes (self nd)))"

section \<open>Element operations\<close>

definition truthy :: "string option \<Rightarrow> bool" where
  "truthy v = (case v of None \<Rightarrow> False | Some s \<Rightarrow> s \<noteq> [])"

definition orEmpty :: "string option \<Rightarrow> string" where
  "orEmpty v = (case v of None \<Rightarrow> [] | Some s \<Rightarrow> s)"

definition getAttribute :: "string \<Rightarrow> elem \<Rightarrow> string option" where
  "getAttribute k e = attrs e k"

definition hasAttribute :: "string \<Rightarrow> elem \<Rightarrow> bool" where
  "hasAttribute k e = (attrs e k \<noteq> None)"

definition setAttribute :: "string \<Rightarrow> string \<Rightarrow> elem \<Rightarrow> elem" where
  "setAttribute k v e = e\<lparr>attrs := (attrs e)(k \<mapsto> v)\<rparr>"

definition removeAttribute :: "string \<Rightarrow> elem \<Rightarrow> elem" where
  "removeAttribute k e = e\<lparr>attrs := (attrs e)(k := None)\<rparr>"

definition classAdd :: "string \<Rightarrow> elem \<Rightarrow> elem" where
  "classAdd c e = e\<lparr>classes := insert c (classes e)\<rparr>"

definition classRemove :: "string \<Rightarrow> elem \<Rightarrow> elem" where
  "classRemove c e = e\<lparr>classes := classes e - {c}\<rparr>"

definition setStyle :: "string \<Rightarrow> string \<Rightarrow> elem \<Rightarrow> elem" where
  "setStyle p v e = e\<lparr>style := (style e)(p := v)\<rparr>"

section \<open>The enhancer\<close>

record settings =
  enabled :: bool
  outlineEnabled :: bool
  outlineColor :: string
  outlineWidth :: string
  contrastEnabled :: bool
  contrastLevel :: string
  highlightEnabled :: bool
  highlightColor :: string
  focusIndicators :: bool

text \<open>
  \<open>outlineWidth\<close> is the number as \<open>setAttribute\<close> and the template literal write
  it. The record kept for an enhanced element: \<open>enhanceImgSVG\<close> stores the filter
  only, and its list is empty here.
\<close>

record stored =
  originalFilter :: string
  modifiedShapes :: "node list"

record estate =
  nodes :: "nid \<Rightarrow> elem"
  enhancedElements :: "nid \<Rightarrow> stored option"

datatype svgType = Inline | Img | Object | Embed | Lottie

record 'n svgInfo =
  type :: svgType
  element :: 'n

definition updNode :: "nid \<Rightarrow> (elem \<Rightarrow> elem) \<Rightarrow> estate \<Rightarrow> estate" where
  "updNode n f st = st\<lparr>nodes := (nodes st)(n := f (nodes st n))\<rparr>"

text \<open>\<open>list.forEach(el => ...)\<close> where the body changes \<open>el\<close> only.\<close>

definition forEachNode :: "(elem \<Rightarrow> elem) \<Rightarrow> node list \<Rightarrow> estate \<Rightarrow> estate" where
  "forEachNode f ds st = fold (\<lambda>d. updNode (idOf d) f) ds st"

text \<open>\<open>nd.querySelectorAll(sel)\<close>, the selector given as a test on the element.\<close>

definition querySelectorAll :: "(elem \<Rightarrow> bool) \<Rightarrow> node \<Rightarrow> estate \<Rightarrow> node list" where
  "querySelectorAll sel nd st = filter (\<lambda>d. sel (nodes st (idOf d))) (descendantNodes nd)"

subsection \<open>Outlines\<close>

definition isShape :: "elem \<Rightarrow> bool" where
  "isShape e = (tag e \<in> set [''path'', ''rect'', ''circle'', ''ellipse'', ''polygon'',
                               ''polyline'', ''line'', ''text''])"

text \<open>\<open>shape.closest(name)\<close> is truthy: the shape or one of its ancestors has this name.\<close>

definition closest :: "string \<Rightarrow> node \<Rightarrow> estate \<Rightarrow> bool" where
  "closest name d st = list_ex (\<lambda>a. tag (nodes st a) = name) (idOf d # ancestors d)"

definition skipped :: "node \<Rightarrow> estate \<Rightarrow> bool" where
  "skipped d st = (closest ''clipPath'' d st \<or> closest ''mask'' d st \<or> closest ''defs'' d st)"

definition captureOriginals :: "elem \<Rightarrow> elem" where
  "captureOriginals e =
     (let e1 = setAttribute ''data-shiny-original-stroke'' (orEmpty (getAttribute ''stroke'' e)) e;
          e2 = setAttribute ''data-shiny-original-stroke-width''
                 (orEmpty (getAttribute ''stroke-width'' e1)) e1
      in setAttribute ''data-shiny-original-paint-order'' (style e2 ''paint-order'') e2)"

definition applyOutline :: "settings \<Rightarrow> elem \<Rightarrow> elem" where
  "applyOutline s e =
     (let e1 = setAttribute ''stroke'' (outlineColor s) e;
          e2 = setAttribute ''stroke-width'' (outlineWidth s) e1;
          fill = getAttribute ''fill'' e2;
          e3 = (if truthy fill \<and> fill \<noteq> Some ''none'' \<and> fill \<noteq> Some ''transparent''
                then setStyle ''paint-order'' ''stroke fill'' e2 else e2)
      in classAdd ''shiny-outlined'' e3)"

text \<open>
  \<open>stored.modifiedShapes.push(shape)\<close>: \<open>stored\<close> is the record of \<open>svg\<close> in the
  map, changed in place. \<open>enhanceInlineSVG\<close> has made sure that it exists.
\<close>

definition pushModified :: "nid \<Rightarrow> node \<Rightarrow> estate \<Rightarrow> estate" where
  "pushModified svg n st =
     (case enhancedElements st svg of
        None \<Rightarrow> st
      | Some r \<Rightarrow> st\<lparr>enhancedElements :=
                      (enhancedElements st)(svg \<mapsto> r\<lparr>modifiedShapes := modifiedShapes r @ [n]\<rparr>)\<rparr>)"

definition outlineShape :: "settings \<Rightarrow> nid \<Rightarrow> node \<Rightarrow> estate \<Rightarrow> estate" where
  "outlineShape s svg d st =
     (if skipped d st then st
      else
        let st1 = (if \<not> truthy (attrs (nodes st (idOf d)) ''data-shiny-original-stroke'')
                   then pushModified svg d (updNode (idOf d) captureOriginals st)
                   else st)
        in updNode (idOf d) (applyOutline s) st1)"

definition addOutlines :: "node \<Rightarrow> settings \<Rightarrow> estate \<Rightarrow> estate" where
  "addOutlines svg s st = fold (outlineShape s (idOf svg)) (querySelectorAll isShape svg st) st"

text \<open>
  \<open>shape.style.paintOrder = originalPaintOrder\<close>: the empty string unsets the property;
  \<open>undefined\<close> (no such data attribute) is no paint order, and the assignment is ignored.
\<close>

definition restoreShape :: "elem \<Rightarrow> elem" where
  "restoreShape e =
     (let originalStroke = attrs e ''data-shiny-original-stroke'';
          originalStrokeWidth = attrs e ''data-shiny-original-stroke-width'';
          originalPaintOrder = attrs e ''data-shiny-original-paint-order'';
          e1 = (if truthy originalStroke then setAttribute ''stroke'' (orEmpty originalStroke) e
                else removeAttribute ''stroke'' e);
          e2 = (if truthy originalStrokeWidth
                then setAttribute ''stroke-width'' (orEmpty originalStrokeWidth) e1
                else removeAttribute ''stroke-width'' e1);
          e3 = (case originalPaintOrder of None \<Rightarrow> e2 | Some v \<Rightarrow> setStyle ''paint-order'' v e2)
      in classRemove ''shiny-outlined'' e3)"

definition removeOutlines :: "stored \<Rightarrow> estate \<Rightarrow> estate" where
  "removeOutlines r st = forEachNode restoreShape (modifiedShapes r) st"

subsection \<open>Contrast\<close>

text \<open>
  The lookup \<open>contrastFilters[settings.contrastLevel]\<close>. The level is taken not to be
  the name of a property every object inherits (\<open>constructor\<close>, \<open>toString\<close>, ...):
  for such a name the source finds a value that is no filter, and the browser drops the
  assignment. The same holds for \<open>contrastValues\<close> below.
\<close>

definition contrastFilters :: "string \<Rightarrow> string option" where
  "contrastFilters level =
     (if level = ''medium'' then Some ''contrast(1.3) saturate(1.2)''
      else if level = ''high'' then Some ''contrast(1.6) saturate(1.4)''
      else if level = ''maximum'' then Some ''contrast(2.0) saturate(1.6)''
      else None)"

definition enhanceContrast :: "node \<Rightarrow> settings \<Rightarrow> estate \<Rightarrow> estate" where
  "enhanceContrast svg s st =
     (let existingFilter =
            (case enhancedElements st (idOf svg) of None \<Rightarrow> [] | Some r \<Rightarrow> originalFilter r);
          contrastFilter =
            (case contrastFilters (contrastLevel s) of
               Some f \<Rightarrow> f | None \<Rightarrow> ''contrast(1.6) saturate(1.4)'')
      in updNode (idOf svg)
           (setStyle ''filter''
              (if existingFilter \<noteq> [] then existingFilter @ '' '' @ contrastFilter
               else contrastFilter)) st)"

subsection \<open>Highlighting\<close>

definition interactive :: "elem \<Rightarrow> bool" where
  "interactive e =
     (hasAttribute ''onclick'' e \<or> hasAttribute ''tabindex'' e \<or> tag e = ''a'' \<or>
      getAttribute ''role'' e = Some ''button'' \<or> getAttribute ''role'' e = Some ''link'' \<or>
      getAttribute ''cursor'' e = Some ''pointer'')"

definition highlight :: "settings \<Rightarrow> elem \<Rightarrow> elem" where
  "highlight s e =
     setStyle ''--shiny-highlight-color'' (highlightColor s) (classAdd ''shiny-highlightable'' e)"

text \<open>The second pass: a computed style that throws is caught and the element left alone.\<close>

definition highlightComputed :: "settings \<Rightarrow> elem \<Rightarrow> elem" where
  "highlightComputed s e =
     (case computedCursor e of
        Inl x \<Rightarrow> e
      | Inr cursor \<Rightarrow>
          if cursor = ''pointer'' \<and> ''shiny-highlightable'' \<notin> classes e then highlight s e else e)"

definition addHighlighting :: "node \<Rightarrow> settings \<Rightarrow> estate \<Rightarrow> estate" where
  "addHighlighting svg s st =
     (let st1 = forEachNode (highlight s) (querySelectorAll interactive svg st) st
      in forEachNode (highlightComputed s) (querySelectorAll (\<lambda>e. True) svg st1) st1)"

definition unhighlight :: "elem \<Rightarrow> elem" where
  "unhighlight e = setStyle ''--shiny-highlight-color'' [] (classRemove ''shiny-highlightable'' e)"

definition removeHighlighting :: "node \<Rightarrow> estate \<Rightarrow> estate" where
  "removeHighlighting svg st =
     forEachNode unhighlight
       (querySelectorAll (\<lambda>e. ''shiny-highlightable'' \<in> classes e) svg st) st"

subsection \<open>Focus indicators\<close>

definition focusable :: "elem \<Rightarrow> bool" where
  "focusable e =
     (tag e = ''a'' \<or>
      (hasAttribute ''tabindex'' e \<and> getAttribute ''tabindex'' e \<noteq> Some ''-1'') \<or>
      hasAttribute ''onclick'' e \<or>
      getAttribute ''role'' e = Some ''button'' \<or> getAttribute ''role'' e = Some ''link'')"

definition addFocus :: "elem \<Rightarrow> elem" where
  "addFocus e =
     (let e1 = classAdd ''shiny-focusable'' e
      in if \<not> hasAttribute ''tabindex'' e1 \<and>
            (hasAttribute ''onclick'' e1 \<or> truthy (getAttribute ''role'' e1))
         then setAttribute ''data-shiny-added-tabindex'' ''true'' (setAttribute ''tabindex'' ''0'' e1)
         else e1)"

definition addFocusIndicators :: "node \<Rightarrow> estate \<Rightarrow> estate" where
  "addFocusIndicators svg st = forEachNode addFocus (querySelectorAll focusable svg st) st"

definition removeFocus :: "elem \<Rightarrow> elem" where
  "removeFocus e =
     (let e1 = classRemove ''shiny-focusable'' e
      in if truthy (attrs e1 ''data-shiny-added-tabindex'')
         then removeAttribute ''data-shiny-added-tabindex'' (removeAttribute ''tabindex'' e1)
         else e1)"

definition removeFocusIndicators :: "node \<Rightarrow> estate \<Rightarrow> estate" where
  "removeFocusIndicators svg st =
     forEachNode removeFocus (querySelectorAll (\<lambda>e. ''shiny-focusable'' \<in> classes e) svg st) st"

subsection \<open>The three treatments\<close>

definition ensureStored :: "nid \<Rightarrow> stored \<Rightarrow> estate \<Rightarrow> estate" where
  "ensureStored n r st =
     (if enhancedElements st n = None
      then st\<lparr>enhancedElements := (enhancedElements st)(n \<mapsto> r)\<rparr> else st)"

definition storedOf :: "nid \<Rightarrow> estate \<Rightarrow> stored" where
  "storedOf n st =
     (case enhancedElements st n of
        Some r \<Rightarrow> r | None \<Rightarrow> \<lparr>originalFilter = [], modifiedShapes = []\<rparr>)"

definition enhanceInlineSVG :: "node \<Rightarrow> settings \<Rightarrow> estate \<Rightarrow> estate" where
  "enhanceInlineSVG svg s st =
     (let n = idOf svg;
          st0 = ensureStored n
                  \<lparr>originalFilter = style (nodes st n) ''filter'', modifiedShapes = []\<rparr> st;
          st1 = (if outlineEnabled s then addOutlines svg s st0
                 else removeOutlines (storedOf n st0) st0);
          st2 = (if contrastEnabled s then enhanceContrast svg s st1
                 else updNode n (setStyle ''filter'' (originalFilter (storedOf n st1))) st1);
          st3 = (if highlightEnabled s then addHighlighting svg s st2
                 else removeHighlighting svg st2);
          st4 = (if focusIndicators s then addFocusIndicators svg st3
                 else removeFocusIndicators svg st3)
      in updNode n (classAdd ''shiny-enhanced'') st4)"

definition contrastValues :: "string \<Rightarrow> string option" where
  "contrastValues level =
     (if level = ''medium'' then Some ''1.3''
      else if level = ''high'' then Some ''1.6''
      else if level = ''maximum'' then Some ''2''
      else None)"

definition joinFilters :: "string list \<Rightarrow> string" where
  "joinFilters fs = (case fs of [] \<Rightarrow> [] | f # rest \<Rightarrow> fold (\<lambda>g acc. acc @ '' '' @ g) rest f)"

definition enhanceImgSVG :: "node \<Rightarrow> settings \<Rightarrow> estate \<Rightarrow> estate" where
  "enhanceImgSVG img s st =
     (let n = idOf img;
          st0 = ensureStored n
                  \<lparr>originalFilter = style (nodes st n) ''filter'', modifiedShapes = []\<rparr> st;
          filters1 = (if contrastEnabled s
                      then [''contrast('' @
                             (case contrastValues (contrastLevel s) of Some c \<Rightarrow> c | None \<Rightarrow> ''1.6'')
                             @ '')'']
                      else []);
          filters2 = (if outlineEnabled s
                      then filters1 @ [''drop-shadow(0 0 '' @ outlineWidth s @ ''px '' @
                                        outlineColor s @ '')'']
                      else filters1)
      in updNode n (classAdd ''shiny-enhanced-img'')
           (updNode n (setStyle ''filter'' (joinFilters filters2)) st0))"

text \<open>\<open>tagName.toLowerCase()\<close> and \<open>nodeName.toLowerCase()\<close>, on the element's name.\<close>

definition lowerChar :: "char \<Rightarrow> char" where
  "lowerChar c =
     (case map_of (zip ''ABCDEFGHIJKLMNOPQRSTUVWXYZ'' ''abcdefghijklmnopqrstuvwxyz'') c of
        Some d \<Rightarrow> d | None \<Rightarrow> c)"

definition toLowerCase :: "string \<Rightarrow> string" where
  "toLowerCase s = map lowerChar s"

definition restore :: "node \<Rightarrow> estate \<Rightarrow> estate" where
  "restore el st =
     (case enhancedElements st (idOf el) of
        None \<Rightarrow> st
      | Some r \<Rightarrow>
          let n = idOf el;
              st1 = (if toLowerCase (tag (nodes st n)) = ''svg''
                     then
                       let a = updNode n (setStyle ''filter'' (originalFilter r)) st;
                           b = removeOutlines r a;
                           c = removeHighlighting el b;
                           d = removeFocusIndicators el c
                       in updNode n (classRemove ''shiny-enhanced'') d
                     else
                       updNode n (classRemove ''shiny-enhanced-img'')
                         (updNode n (setStyle ''filter'' (originalFilter r)) st))
          in st1\<lparr>enhancedElements := (enhancedElements st1)(n := None)\<rparr>)"

subsection \<open>Embedded graphics\<close>

text \<open>
  A computation that may throw is a value of \<open>exn + 'a\<close>; \<open>bindE\<close> is sequencing, an
  exception of the first part skipping the second, and \<open>tryCatch\<close> is \<open>try { } catch (e) { }\<close>.
\<close>

definition bindE :: "exn + 'a \<Rightarrow> ('a \<Rightarrow> exn + 'b) \<Rightarrow> exn + 'b" where
  "bindE m f = (case m of Inl x \<Rightarrow> Inl x | Inr v \<Rightarrow> f v)"

definition tryCatch :: "exn + 'a \<Rightarrow> (exn \<Rightarrow> exn + 'a) \<Rightarrow> exn + 'a" where
  "tryCatch m h = (case m of Inl x \<Rightarrow> h x | Inr v \<Rightarrow> Inr v)"

text \<open>\<open>element.contentDocument || element.getSVGDocument?.()\<close>\<close>

definition svgDocument :: "elem \<Rightarrow> exn + tree option" where
  "svgDocument e =
     bindE (contentDocument e) (\<lambda>doc.
       case doc of
         Some d \<Rightarrow> Inr (Some d)
       | None \<Rightarrow> (case getSVGDocument e of None \<Rightarrow> Inr None | Some call \<Rightarrow> call))"

text \<open>\<open>svgDoc.querySelector('svg')\<close>: the first element of the nested document named svg.\<close>

definition documentSvg :: "tree \<Rightarrow> estate \<Rightarrow> node option" where
  "documentSvg d st = find (\<lambda>x. tag (nodes st (idOf x)) = ''svg'') (subnodes [] d)"

text \<open>
  The body of the \<open>try\<close>. Its first part looks for the inline root: it throws, or
  finds none, or finds the root. With a root the body returns from the function with the
  inline treatment done (\<open>Some\<close>); otherwise it runs to its end (\<open>None\<close>).
\<close>

definition embeddedRoot :: "node \<Rightarrow> estate \<Rightarrow> exn + node option" where
  "embeddedRoot el st =
     bindE (svgDocument (nodes st (idOf el))) (\<lambda>svgDoc.
       case svgDoc of
         None \<Rightarrow> Inr None
       | Some d \<Rightarrow> Inr (documentSvg d st))"

definition embeddedAttempt :: "node \<Rightarrow> settings \<Rightarrow> estate \<Rightarrow> exn + estate option" where
  "embeddedAttempt el s st =
     bindE (embeddedRoot el st) (\<lambda>found.
       case found of
         None \<Rightarrow> Inr None
       | Some svg \<Rightarrow> Inr (Some (enhanceInlineSVG svg s st)))"

definition enhanceEmbeddedSVG :: "node \<Rightarrow> settings \<Rightarrow> estate \<Rightarrow> exn + estate" where
  "enhanceEmbeddedSVG el s st =
     bindE (tryCatch (embeddedAttempt el s st) (\<lambda>e. Inr None)) (\<lambda>returned.
       case returned of
         Some st' \<Rightarrow> Inr st'
       | None \<Rightarrow> Inr (enhanceImgSVG el s st))"

definition enhance :: "node svgInfo \<Rightarrow> settings \<Rightarrow> estate \<Rightarrow> exn + estate" where
  "enhance svgInfo s st =
     (if \<not> enabled s then Inr (restore (element svgInfo) st)
      else
        case type svgInfo of
          Inline \<Rightarrow> Inr (enhanceInlineSVG (element svgInfo) s st)
        | Lottie \<Rightarrow> Inr (enhanceInlineSVG (element svgInfo) s st)
        | Img \<Rightarrow> Inr (enhanceImgSVG (element svgInfo) s st)
        | Object \<Rightarrow> enhanceEmbeddedSVG (element svgInfo) s st
        | Embed \<Rightarrow> enhanceEmbeddedSVG (element svgInfo) s st)"

section \<open>The detector\<close>

text \<open>
  The detector reads the document and never changes it. Its world is the page (the tree of
  the body element), what every element carries, the mutation observers that the browser
  keeps alive, and the fields of the detector object. A callback passed to \<open>start\<close> is
  identified by a number, and \<open>calls\<close> lists its invocations in order. The detector
  tells elements apart by identity only, so an info object holds the identity of its
  element; its \<open>container\<close> field is read nowhere and is left out.
\<close>

datatype target = ElementT nid | ShadowRootT nid

text \<open>
  The three observer callbacks of the source: the one of \<open>observeDynamicContent\<close>, the
  one of \<open>observeShadowRoot\<close>, and the one of \<open>observeLottieContainer\<close> with the
  container it closes over.
\<close>

datatype handler = DynamicContent | ShadowContent | LottieContainer nid

text \<open>
  \<open>observers\<close> are the observers created so far, oldest first; \<open>observing\<close> says which
  observer is registered on which node. A registration ends with \<open>disconnect\<close> only:
  the node keeps its registered observers alive, whether or not the script still refers to
  them. \<open>timeouts\<close> are the observers a pending \<open>setTimeout\<close> will disconnect.
\<close>

record world =
  page :: tree
  elementData :: "nid \<Rightarrow> elem"
  observers :: "(nat \<times> handler) list"
  observing :: "(nat \<times> target) list"
  timeouts :: "nat list"
  observer :: "nat option"
  shadowObservers :: "nid \<Rightarrow> nat option"
  detectedSVGs :: "nid set"
  onSVGDetected :: "nat option"
  calls :: "(nat \<times> nid svgInfo) list"

subsection \<open>Queries\<close>

fun elems :: "tree \<Rightarrow> tree list" where
  "elems (Node n ts sh) = Node n ts sh # concat (map elems ts)"

text \<open>
  \<open>root.querySelectorAll(sel)\<close>: for the document the forest is the body, for a shadow
  root its children, for an element its children.
\<close>

definition select :: "(elem \<Rightarrow> bool) \<Rightarrow> tree list \<Rightarrow> world \<Rightarrow> tree list" where
  "select sel forest w = filter (\<lambda>t. sel (elementData w (ident t))) (concat (map elems forest))"

definition querySelector :: "(elem \<Rightarrow> bool) \<Rightarrow> tree list \<Rightarrow> world \<Rightarrow> tree option" where
  "querySelector sel forest w = find (\<lambda>t. sel (elementData w (ident t))) (concat (map elems forest))"

text \<open>
  \<open>traverseShadowRoots\<close>: the shadow roots in the order in which the callback gets them,
  each as its host and its children. An element's own shadow root, and the shadow roots
  nested in it, come before those of the element's descendants.
\<close>

fun shadowRootsOf :: "tree \<Rightarrow> (nid \<times> tree list) list" where
  "shadowRootsOf (Node n ts sh) =
     (case sh of None \<Rightarrow> [] | Some sf \<Rightarrow> (n, sf) # concat (map shadowRootsOf sf))
     @ concat (map shadowRootsOf ts)"

definition traverseShadowRoots :: "tree list \<Rightarrow> (nid \<times> tree list) list" where
  "traverseShadowRoots forest = concat (map shadowRootsOf forest)"

definition querySelectorAllDeep :: "(elem \<Rightarrow> bool) \<Rightarrow> world \<Rightarrow> tree list" where
  "querySelectorAllDeep sel w =
     select sel [page w] w
     @ concat (map (\<lambda>(host, sf). select sel sf w) (traverseShadowRoots [page w]))"

subsection \<open>Selectors\<close>

definition endsWith :: "string \<Rightarrow> string \<Rightarrow> bool" where
  "endsWith s suffix =
     (length suffix \<le> length s \<and> drop (length s - length suffix) s = suffix)"

fun containsStr :: "string \<Rightarrow> string \<Rightarrow> bool" where
  "containsStr [] part = (part = [])"
| "containsStr (c # s) part = (take (length part) (c # s) = part \<or> containsStr s part)"

definition attrEndsWith :: "string \<Rightarrow> string \<Rightarrow> elem \<Rightarrow> bool" where
  "attrEndsWith k suffix e = (case attrs e k of None \<Rightarrow> False | Some v \<Rightarrow> endsWith v suffix)"

definition attrIncludes :: "string \<Rightarrow> string \<Rightarrow> elem \<Rightarrow> bool" where
  "attrIncludes k part e = (case attrs e k of None \<Rightarrow> False | Some v \<Rightarrow> containsStr v part)"

definition svgSel :: "elem \<Rightarrow> bool" where
  "svgSel e = (tag e = ''svg'')"

definition imgSel :: "elem \<Rightarrow> bool" where
  "imgSel e = (tag e = ''img'' \<and> (attrEndsWith ''src'' ''.svg'' e \<or> attrIncludes ''src'' ''.svg?'' e))"

text \<open>
  \<open>[type="image/svg+xml"]\<close>: the value of \<open>type\<close> is compared without regard to
  ASCII case, as selectors do for this attribute of an HTML element.
\<close>

definition typeIsSvg :: "elem \<Rightarrow> bool" where
  "typeIsSvg e =
     (case attrs e ''type'' of None \<Rightarrow> False | Some v \<Rightarrow> toLowerCase v = ''image/svg+xml'')"

definition objectSel :: "elem \<Rightarrow> bool" where
  "objectSel e = (tag e = ''object'' \<and> (typeIsSvg e \<or> attrEndsWith ''data'' ''.svg'' e))"

definition embedSel :: "elem \<Rightarrow> bool" where
  "embedSel e = (tag e = ''embed'' \<and> (typeIsSvg e \<or> attrEndsWith ''src'' ''.svg'' e))"

definition lottieClassSel :: "elem \<Rightarrow> bool" where
  "lottieClassSel e =
     (''lottie'' \<in> classes e \<or> ''bodymovin'' \<in> classes e \<or> ''lottie-animation'' \<in> classes e)"

definition playerSel :: "elem \<Rightarrow> bool" where
  "playerSel e = (tag e = ''lottie-player'' \<or> tag e = ''dotlottie-player'')"

definition lottieDataSel :: "elem \<Rightarrow> bool" where
  "lottieDataSel e =
     (attrs e ''data-animation-path'' \<noteq> None \<or> attrs e ''data-anim-loop'' \<noteq> None \<or>
      attrs e ''data-bm-renderer'' \<noteq> None)"

definition lottieSvgSel :: "elem \<Rightarrow> bool" where
  "lottieSvgSel e = (tag e = ''svg'' \<and> (attrs e ''data-bm'' \<noteq> None \<or> ''bodymovin'' \<in> classes e))"

subsection \<open>Reporting and observing\<close>

definition registerSVG :: "nid svgInfo \<Rightarrow> world \<Rightarrow> world" where
  "registerSVG svgInfo w =
     (if element svgInfo \<notin> detectedSVGs w
      then
        let w1 = w\<lparr>detectedSVGs := insert (element svgInfo) (detectedSVGs w)\<rparr>
        in (case onSVGDetected w1 of
              None \<Rightarrow> w1
            | Some callback \<Rightarrow> w1\<lparr>calls := calls w1 @ [(callback, svgInfo)]\<rparr>)
      else w)"

definition registerAll :: "svgType \<Rightarrow> tree list \<Rightarrow> world \<Rightarrow> world" where
  "registerAll k ts w = fold (\<lambda>t. registerSVG \<lparr>type = k, element = ident t\<rparr>) ts w"

text \<open>\<open>new MutationObserver(callback)\<close> gives the next free number.\<close>

definition newObserver :: "handler \<Rightarrow> world \<Rightarrow> nat \<times> world" where
  "newObserver h w =
     (let ob = length (observers w) in (ob, w\<lparr>observers := observers w @ [(ob, h)]\<rparr>))"

definition observe :: "nat \<Rightarrow> target \<Rightarrow> world \<Rightarrow> world" where
  "observe ob tg w = w\<lparr>observing := observing w @ [(ob, tg)]\<rparr>"

definition disconnect :: "nat \<Rightarrow> world \<Rightarrow> world" where
  "disconnect ob w = w\<lparr>observing := filter (\<lambda>r. fst r \<noteq> ob) (observing w)\<rparr>"

definition observeLottieContainer :: "tree \<Rightarrow> world \<Rightarrow> world" where
  "observeLottieContainer container w =
     (let (ob, w1) = newObserver (LottieContainer (ident container)) w;
          w2 = observe ob (ElementT (ident container)) w1;
          w3 = (if shadowRoot container \<noteq> None
                then observe ob (ShadowRootT (ident container)) w2 else w2)
      in w3\<lparr>timeouts := timeouts w3 @ [ob]\<rparr>)"

definition observeShadowRoot :: "nid \<Rightarrow> world \<Rightarrow> world" where
  "observeShadowRoot host w =
     (if shadowObservers w host \<noteq> None then w
      else
        let (ob, w1) = newObserver ShadowContent w;
            w2 = observe ob (ShadowRootT host) w1
        in w2\<lparr>shadowObservers := (shadowObservers w2)(host \<mapsto> ob)\<rparr>)"

subsection \<open>The initial pass\<close>

text \<open>
  \<open>detectLottieContainers\<close>, its four methods one after the other; the list of infos
  and the world are threaded through, since the second method starts pending watches.
\<close>

definition containerSvg :: "tree \<Rightarrow> world \<Rightarrow> tree option" where
  "containerSvg container w = querySelector svgSel (childNodes container) w"

definition playerSvg :: "tree \<Rightarrow> world \<Rightarrow> tree option" where
  "playerSvg player w =
     (case querySelector svgSel (childNodes player) w of
        Some svg \<Rightarrow> Some svg
      | None \<Rightarrow>
          (case shadowRoot player of
             None \<Rightarrow> None
           | Some sf \<Rightarrow> querySelector svgSel sf w))"

definition lottieOfContainer :: "world \<Rightarrow> tree \<Rightarrow> nid svgInfo list \<Rightarrow> nid svgInfo list" where
  "lottieOfContainer w container found =
     (case containerSvg container w of
        None \<Rightarrow> found
      | Some svg \<Rightarrow> found @ [\<lparr>type = Lottie, element = ident svg\<rparr>])"

definition lottieOfPlayer ::
  "tree \<Rightarrow> nid svgInfo list \<times> world \<Rightarrow> nid svgInfo list \<times> world" where
  "lottieOfPlayer player acc =
     (case playerSvg player (snd acc) of
        Some svg \<Rightarrow> (fst acc @ [\<lparr>type = Lottie, element = ident svg\<rparr>], snd acc)
      | None \<Rightarrow> (fst acc, observeLottieContainer player (snd acc)))"

definition lottieOfSvg :: "tree \<Rightarrow> nid svgInfo list \<Rightarrow> nid svgInfo list" where
  "lottieOfSvg svg found =
     (if list_ex (\<lambda>item. element item = ident svg) found then found
      else found @ [\<lparr>type = Lottie, element = ident svg\<rparr>])"

definition detectLottieContainers :: "world \<Rightarrow> nid svgInfo list \<times> world" where
  "detectLottieContainers w =
     (let found1 = fold (lottieOfContainer w) (querySelectorAllDeep lottieClassSel w) [];
          (found2, w2) = fold lottieOfPlayer (querySelectorAllDeep playerSel w) (found1, w);
          found3 = fold (lottieOfContainer w2) (querySelectorAllDeep lottieDataSel w2) found2;
          found4 = fold lottieOfSvg (querySelectorAllDeep lottieSvgSel w2) found3
      in (found4, w2))"

definition infos :: "svgType \<Rightarrow> tree list \<Rightarrow> nid svgInfo list" where
  "infos k ts = map (\<lambda>t. \<lparr>type = k, element = ident t\<rparr>) ts"

definition detectExisting :: "world \<Rightarrow> nid svgInfo list \<times> world" where
  "detectExisting w =
     (let svgElements =
            infos Inline (querySelectorAllDeep svgSel w)
            @ infos Img (querySelectorAllDeep imgSel w)
            @ infos Object (querySelectorAllDeep objectSel w)
            @ infos Embed (querySelectorAllDeep embedSel w);
          (lottie, w1) = detectLottieContainers w
      in (svgElements @ lottie, w1))"

subsection \<open>Watching\<close>

definition checkShadowHost :: "tree \<Rightarrow> world \<Rightarrow> world" where
  "checkShadowHost el w =
     (case shadowRoot el of
        None \<Rightarrow> w
      | Some sf \<Rightarrow>
          let w1 = observeShadowRoot (ident el) w
          in registerAll Inline (select svgSel sf w1) w1)"

definition checkNodeForSVG :: "tree \<Rightarrow> world \<Rightarrow> world" where
  "checkNodeForSVG nd w =
     (let name = toLowerCase (tag (elementData w (ident nd))) in
      if name = ''svg'' then registerSVG \<lparr>type = Inline, element = ident nd\<rparr> w
      else if name = ''lottie-player'' \<or> name = ''dotlottie-player''
      then observeLottieContainer nd w
      else
        let w1 = registerAll Inline (select svgSel (childNodes nd) w) w;
            w2 = fold observeLottieContainer (select playerSel (childNodes nd) w1) w1;
            w3 = fold checkShadowHost (select (\<lambda>e. True) (childNodes nd) w2) w2
        in checkShadowHost nd w3)"

text \<open>The callback of the document observer and of every shadow observer.\<close>

definition contentCallback :: "tree list \<Rightarrow> world \<Rightarrow> world" where
  "contentCallback addedNodes w = fold checkNodeForSVG addedNodes w"

text \<open>
  Every element of the page, the shadow trees included; \<open>container\<close> in the callback of a
  pending watch is the element with that identity as it stands now.
\<close>

fun everyElement :: "tree \<Rightarrow> tree list" where
  "everyElement (Node n ts sh) =
     Node n ts sh # concat (map everyElement ts)
     @ (case sh of None \<Rightarrow> [] | Some sf \<Rightarrow> concat (map everyElement sf))"

definition elementById :: "nid \<Rightarrow> world \<Rightarrow> tree option" where
  "elementById n w = find (\<lambda>t. ident t = n) (everyElement (page w))"

definition lottieCallback :: "nat \<Rightarrow> nid \<Rightarrow> world \<Rightarrow> world" where
  "lottieCallback ob container w =
     (case elementById container w of
        None \<Rightarrow> w
      | Some c \<Rightarrow>
          (case playerSvg c w of
             None \<Rightarrow> w
           | Some svg \<Rightarrow> disconnect ob (registerSVG \<lparr>type = Lottie, element = ident svg\<rparr> w)))"

definition observeExistingShadowRoots :: "world \<Rightarrow> world" where
  "observeExistingShadowRoots w =
     fold (\<lambda>(host, sf). observeShadowRoot host) (traverseShadowRoots [page w]) w"

definition observeDynamicContent :: "world \<Rightarrow> world" where
  "observeDynamicContent w =
     (let (ob, w1) = newObserver DynamicContent w;
          w2 = w1\<lparr>observer := Some ob\<rparr>;
          w3 = observe ob (ElementT (ident (page w2))) w2
      in observeExistingShadowRoots w3)"

definition start :: "nat \<Rightarrow> world \<Rightarrow> world" where
  "start callback w =
     (let w0 = w\<lparr>onSVGDetected := Some callback\<rparr>;
          (existing, w1) = detectExisting w0;
          w2 = fold registerSVG existing w1
      in observeDynamicContent w2)"

definition stop :: "world \<Rightarrow> world" where
  "stop w =
     (let w1 = (case observer w of
                  None \<Rightarrow> w
                | Some ob \<Rightarrow> (disconnect ob w)\<lparr>observer := None\<rparr>)
      in w1\<lparr>shadowObservers := (\<lambda>host. None)\<rparr>)"

subsection \<open>What the page does\<close>

text \<open>
  \<open>appendChild\<close> of a new subtree to an element or to a shadow root of the page.
\<close>

fun appendTo :: "target \<Rightarrow> tree \<Rightarrow> tree \<Rightarrow> tree" where
  "appendTo tg new (Node n ts sh) =
     Node n
       (map (appendTo tg new) ts @ (if tg = ElementT n then [new] else []))
       (case sh of
          None \<Rightarrow> None
        | Some sf \<Rightarrow>
            Some (map (appendTo tg new) sf @ (if tg = ShadowRootT n then [new] else [])))"

text \<open>
  An observer registered on a node with \<open>subtree: true\<close> is told of a child added to that
  node or to a light descendant of it; a shadow tree is a tree of its own.
\<close>

definition covers :: "world \<Rightarrow> target \<Rightarrow> target \<Rightarrow> bool" where
  "covers w registered parent =
     (registered = parent \<or>
      (case parent of
         ShadowRootT h \<Rightarrow> False
       | ElementT p \<Rightarrow>
           (case registered of
              ElementT a \<Rightarrow>
                (case elementById a w of
                   None \<Rightarrow> False
                 | Some t \<Rightarrow> p \<in> set (map ident (elems t)))
            | ShadowRootT h \<Rightarrow>
                (case elementById h w of
                   None \<Rightarrow> False
                 | Some t \<Rightarrow>
                     (case shadowRoot t of
                        None \<Rightarrow> False
                      | Some sf \<Rightarrow> p \<in> set (map ident (concat (map elems sf))))))))"

definition notified :: "world \<Rightarrow> target \<Rightarrow> (nat \<times> handler) list" where
  "notified w parent =
     filter (\<lambda>(ob, h). list_ex (\<lambda>(ob', tg). ob' = ob \<and> covers w tg parent) (observing w))
       (observers w)"

definition runCallback :: "tree list \<Rightarrow> nat \<times> handler \<Rightarrow> world \<Rightarrow> world" where
  "runCallback addedNodes obs w =
     (case snd obs of
        DynamicContent \<Rightarrow> contentCallback addedNodes w
      | ShadowContent \<Rightarrow> contentCallback addedNodes w
      | LottieContainer container \<Rightarrow> lottieCallback (fst obs) container w)"

text \<open>
  The page appends a subtree; the observers registered for the place are then called, oldest
  first, each with the one record of this insertion.
\<close>

definition insertNode :: "target \<Rightarrow> tree \<Rightarrow> world \<Rightarrow> world" where
  "insertNode parent new w =
     (let told = notified w parent;
          w1 = w\<lparr>page := appendTo parent new (page w)\<rparr>
      in fold (runCallback [new]) told w1)"

text \<open>The timer of a pending watch fires.\<close>

definition timeout :: "nat \<Rightarrow> world \<Rightarrow> world" where
  "timeout ob w = (disconnect ob w)\<lparr>timeouts := filter (\<lambda>x. x \<noteq> ob) (timeouts w)\<rparr>"

text \<open>
  What happens on a page while a detector exists: a subtree is appended, or the timer of a
  pending watch fires. A session is a \<open>start\<close> followed by any number of these.
\<close>

datatype pageEvent = Append target tree | TimerFires nat

definition happen :: "pageEvent \<Rightarrow> world \<Rightarrow> world" where
  "happen ev w =
     (case ev of
        Append parent new \<Rightarrow> insertNode parent new w
      | TimerFires ob \<Rightarrow> timeout ob w)"

definition run :: "pageEvent list \<Rightarrow> world \<Rightarrow> world" where
  "run evs w = fold happen evs w"

section \<open>Example pages\<close>

definition blank :: elem where
  "blank = \<lparr>tag = ''div'', attrs = (\<lambda>k. None), classes = {}, style = (\<lambda>p. []),
            computedCursor = Inr ''auto'', contentDocument = Inr None, getSVGDocument = None\<rparr>"

definition named :: "string \<Rightarrow> elem" where
  "named name = blank\<lparr>tag := name\<rparr>"

text \<open>The defaults of the storage module.\<close>

definition defaultSettings :: settings where
  "defaultSettings =
     \<lparr>enabled = True, outlineEnabled = True, outlineColor = ''#000000'', outlineWidth = ''2'',
      contrastEnabled = True, contrastLevel = ''high'', highlightEnabled = True,
      highlightColor = ''#FFFF00'', focusIndicators = True\<rparr>"

text \<open>
  \<^verbatim>\<open><body><svg><path fill="red"/></svg></body>\<close>, the body being element 0, the svg 1
  and the path 2.
\<close>

definition iconSvg :: node where
  "iconSvg = \<lparr>self = Node 1 [Node 2 [] None] None, ancestors = [0]\<rparr>"

definition iconPath :: node where
  "iconPath = \<lparr>self = Node 2 [] None, ancestors = [1, 0]\<rparr>"

definition iconPage :: estate where
  "iconPage =
     \<lparr>nodes = (\<lambda>n. blank)
        (0 := named ''body'', 1 := named ''svg'',
         2 := (named ''path'')\<lparr>attrs := (\<lambda>k. None)(''fill'' \<mapsto> ''red'')\<rparr>),
      enhancedElements = (\<lambda>n. None)\<rparr>"

text \<open>
  \<^verbatim>\<open><body><object data="logo.svg"></object></body>\<close>, the object being element 5; its
  nested document is \<^verbatim>\<open><svg><rect stroke="" stroke-width="1"/></svg>\<close>, elements 6 and 7, and can be read.
\<close>

definition logoObject :: node where
  "logoObject = \<lparr>self = Node 5 [] None, ancestors = [0]\<rparr>"

definition logoSvg :: node where
  "logoSvg = \<lparr>self = Node 6 [Node 7 [] None] None, ancestors = []\<rparr>"

definition logoPage :: estate where
  "logoPage =
     \<lparr>nodes = (\<lambda>n. blank)
        (0 := named ''body'',
         5 := (named ''object'')\<lparr>attrs := (\<lambda>k. None)(''data'' \<mapsto> ''logo.svg''),
                                  contentDocument := Inr (Some (self logoSvg))\<rparr>,
         6 := named ''svg'',
         7 := (named ''rect'')\<lparr>attrs := (\<lambda>k. None)(''stroke'' \<mapsto> [], ''stroke-width'' \<mapsto> ''1'')\<rparr>),
      enhancedElements = (\<lambda>n. None)\<rparr>"

text \<open>The icon page with the path's original stroke already captured as \<open>blue\<close>.\<close>

definition capturedPage :: estate where
  "capturedPage =
     iconPage\<lparr>nodes := (nodes iconPage)
       (2 := (named ''path'')\<lparr>attrs := (\<lambda>k. None)
          (''stroke'' \<mapsto> ''#000000'', ''data-shiny-original-stroke'' \<mapsto> ''blue'',
           ''data-shiny-original-stroke-width'' \<mapsto> [],
           ''data-shiny-original-paint-order'' \<mapsto> [])\<rparr>)\<rparr>"

text \<open>The icon page with \<^verbatim>\<open><path stroke="">\<close>: a stroke that is there and empty.\<close>

definition blankStrokePage :: estate where
  "blankStrokePage =
     iconPage\<lparr>nodes := (nodes iconPage)
       (2 := (named ''path'')\<lparr>attrs := (\<lambda>k. None)(''stroke'' \<mapsto> [])\<rparr>)\<rparr>"

text \<open>
  Three more pages with the object 5: its document cannot be read (the accessor throws);
  its document is \<^verbatim>\<open><div></div>\<close>, element 8, with no svg in it; it has no
  document at all.
\<close>

definition blockedPage :: estate where
  "blockedPage =
     logoPage\<lparr>nodes := (nodes logoPage)
       (5 := (named ''object'')\<lparr>contentDocument := Inl SecurityError\<rparr>)\<rparr>"

definition rootlessPage :: estate where
  "rootlessPage =
     logoPage\<lparr>nodes := (nodes logoPage)
       (5 := (named ''object'')\<lparr>contentDocument := Inr (Some (Node 8 [] None))\<rparr>)\<rparr>"

definition plainPage :: estate where
  "plainPage = logoPage\<lparr>nodes := (nodes logoPage)(5 := named ''object'')\<rparr>"

subsection \<open>Pages for the detector\<close>

text \<open>\<open>new SVGDetector()\<close> on a page.\<close>

definition newDetector :: "tree \<Rightarrow> (nid \<Rightarrow> elem) \<Rightarrow> world" where
  "newDetector p d =
     \<lparr>page = p, elementData = d, observers = [], observing = [], timeouts = [],
      observer = None, shadowObservers = (\<lambda>host. None), detectedSVGs = {},
      onSVGDetected = None, calls = []\<rparr>"

text \<open>
  The elements of the example pages: 0 is the body, 1 a div, 2 a span, 3 and 4 are svg
  elements, 5 is \<^verbatim>\<open><img src="icon.svg">\<close>, 6 a lottie-player, 7 one more svg.
\<close>

definition widgets :: "nid \<Rightarrow> elem" where
  "widgets =
     (\<lambda>n. blank)
       (0 := named ''body'', 1 := named ''div'', 2 := named ''span'', 3 := named ''svg'',
        4 := named ''svg'',
        5 := (named ''img'')\<lparr>attrs := (\<lambda>k. None)(''src'' \<mapsto> ''icon.svg'')\<rparr>,
        6 := named ''lottie-player'', 7 := named ''svg'')"

text \<open>An empty body, watched by a started detector.\<close>

definition emptyPage :: world where
  "emptyPage = start 1 (newDetector (Node 0 [] None) widgets)"

text \<open>
  A div whose shadow root holds a span that has an empty shadow root of its own.
\<close>

definition nestedHost :: tree where
  "nestedHost = Node 1 [] (Some [Node 2 [] (Some [])])"

text \<open>A body with a div that has an empty shadow root.\<close>

definition hostPage :: world where
  "hostPage = newDetector (Node 0 [Node 1 [] (Some [])] None) widgets"

text \<open>A body with one svg.\<close>

definition svgPage :: world where
  "svgPage = newDetector (Node 0 [Node 3 [] None] None) widgets"

text \<open>A body with a lottie-player that has rendered nothing yet.\<close>

definition playerPage :: world where
  "playerPage = newDetector (Node 0 [Node 6 [] None] None) widgets"

section \<open>Notions used in the proofs\<close>

text \<open>What \<open>addOutlines\<close> does to one eligible shape.\<close>

definition outlineElem :: "settings \<Rightarrow> elem \<Rightarrow> elem" where
  "outlineElem s e =
     applyOutline s
       (if \<not> truthy (attrs e ''data-shiny-original-stroke'') then captureOriginals e else e)"

definition outlineView ::
  "elem \<Rightarrow> (string \<Rightarrow> string option) \<times> string \<times> bool" where
  "outlineView e =
     (\<lambda>k. if k \<in> set [''stroke'', ''stroke-width'', ''data-shiny-original-stroke'',
                           ''data-shiny-original-stroke-width'', ''data-shiny-original-paint-order'']
           then attrs e k else None,
      style e ''paint-order'', ''shiny-outlined'' \<in> classes e)"


text \<open>What \<open>removeOutlines\<close> writes back to a shape.\<close>

definition restoredStroke :: "elem \<Rightarrow> string option" where
  "restoredStroke e = (if truthy (attrs e ''data-shiny-original-stroke'')
      then attrs e ''data-shiny-original-stroke'' else None)"

definition restoredWidth :: "elem \<Rightarrow> string option" where
  "restoredWidth e = (if truthy (attrs e ''data-shiny-original-stroke-width'')
      then attrs e ''data-shiny-original-stroke-width'' else None)"

definition restoredPaintOrder :: "elem \<Rightarrow> string" where
  "restoredPaintOrder e = (case attrs e ''data-shiny-original-paint-order'' of
        None \<Rightarrow> style e ''paint-order'' | Some v \<Rightarrow> v)"

text \<open>
  \<open>frame A C S e e'\<close>: from \<open>e\<close> to \<open>e'\<close> nothing has changed but, at most, the attributes
  in \<open>A\<close>, the membership of the classes in \<open>C\<close> and the style properties in \<open>S\<close>.
\<close>

definition frame :: "string set \<Rightarrow> string set \<Rightarrow> string set \<Rightarrow> elem \<Rightarrow> elem \<Rightarrow> bool" where
  "frame A C S e e' =
     (tag e' = tag e \<and> computedCursor e' = computedCursor e \<and>
      (\<forall>k. k \<notin> A \<longrightarrow> attrs e' k = attrs e k) \<and>
      (\<forall>c. c \<notin> C \<longrightarrow> (c \<in> classes e') = (c \<in> classes e)) \<and>
      (\<forall>p. p \<notin> S \<longrightarrow> style e' p = style e p))"

abbreviation nonOutline :: "elem \<Rightarrow> elem \<Rightarrow> bool" where
  "nonOutline \<equiv> frame {''tabindex'', ''data-shiny-added-tabindex''}
      {''shiny-highlightable'', ''shiny-focusable''} {''--shiny-highlight-color''}"

abbreviation nonFocus :: "elem \<Rightarrow> elem \<Rightarrow> bool" where
  "nonFocus \<equiv> frame {''stroke'', ''stroke-width'', ''data-shiny-original-stroke'',
      ''data-shiny-original-stroke-width'', ''data-shiny-original-paint-order''}
      {''shiny-outlined'', ''shiny-highlightable''} {''paint-order'', ''--shiny-highlight-color''}"

abbreviation anyPass :: "elem \<Rightarrow> elem \<Rightarrow> bool" where
  "anyPass \<equiv> frame {''stroke'', ''stroke-width'', ''data-shiny-original-stroke'',
      ''data-shiny-original-stroke-width'', ''data-shiny-original-paint-order'',
      ''tabindex'', ''data-shiny-added-tabindex''}
      {''shiny-outlined'', ''shiny-highlightable'', ''shiny-focusable''}
      {''paint-order'', ''--shiny-highlight-color''}"

definition eligible :: "node \<Rightarrow> estate \<Rightarrow> nid \<Rightarrow> bool" where
  "eligible svg st m =
     (\<exists>d\<in>set (descendantNodes svg). idOf d = m \<and> isShape (nodes st m) \<and> \<not> skipped d st)"

definition focusPass :: "settings \<Rightarrow> elem \<Rightarrow> elem" where
  "focusPass s e =
     (if focusIndicators s then (if focusable e then addFocus e else e)
      else (if ''shiny-focusable'' \<in> classes e then removeFocus e else e))"

text \<open>
  A page the enhancer has not touched: no record for the graphic, and on the graphic and
  below it no marker class and no non-empty data attribute of the enhancer.
\<close>

definition markerClasses :: "string list" where
  "markerClasses = [''shiny-enhanced'', ''shiny-enhanced-img'', ''shiny-outlined'',
                    ''shiny-highlightable'', ''shiny-focusable'']"

definition untouched :: "elem \<Rightarrow> bool" where
  "untouched e =
     (list_all (\<lambda>c. c \<notin> classes e) markerClasses \<and>
      \<not> truthy (attrs e ''data-shiny-original-stroke'') \<and>
      \<not> truthy (attrs e ''data-shiny-added-tabindex''))"

definition pristine :: "node \<Rightarrow> estate \<Rightarrow> bool" where
  "pristine g st =
     (enhancedElements st (idOf g) = None \<and>
      list_all (\<lambda>m. untouched (nodes st m)) (idOf g # map idOf (descendantNodes g)))"

text \<open>
  \<open>restoredTo e e'\<close>: the tracked attributes and the classes of \<open>e'\<close> are those of
  \<open>e\<close>, an empty stroke or stroke-width of \<open>e\<close> counting as an absent one.
\<close>

definition restoredTo :: "elem \<Rightarrow> elem \<Rightarrow> bool" where
  "restoredTo e e' =
     (style e' ''filter'' = style e ''filter'' \<and>
      style e' ''paint-order'' = style e ''paint-order'' \<and>
      attrs e' ''tabindex'' = attrs e ''tabindex'' \<and>
      orEmpty (attrs e' ''stroke'') = orEmpty (attrs e ''stroke'') \<and>
      (attrs e ''stroke'' \<noteq> Some [] \<longrightarrow> attrs e' ''stroke'' = attrs e ''stroke'') \<and>
      orEmpty (attrs e' ''stroke-width'') = orEmpty (attrs e ''stroke-width'') \<and>
      (attrs e ''stroke-width'' \<noteq> Some [] \<longrightarrow> attrs e' ''stroke-width'' = attrs e ''stroke-width'') \<and>
      classes e' = classes e)"

text \<open>
  The kind of a graphic fits its element: inline and animation graphics are svg elements,
  the others are not. A graphic is treated in place unless it is an object or embed whose
  nested svg root can be reached, which gets the treatment instead.
\<close>

definition kindFitsTag :: "svgType \<Rightarrow> elem \<Rightarrow> bool" where
  "kindFitsTag k e = ((k = Inline \<or> k = Lottie) = (toLowerCase (tag e) = ''svg''))"

definition treatedInPlace :: "svgType \<Rightarrow> node \<Rightarrow> estate \<Rightarrow> bool" where
  "treatedInPlace k g st =
     (if k = Object \<or> k = Embed
      then (case embeddedRoot g st of Inr (Some svg) \<Rightarrow> False | Inr None \<Rightarrow> True | Inl thrown \<Rightarrow> True)
      else True)"

text \<open>
  The calls made between two worlds, and three relations between a world and a later one:
  nothing was reported; only elements named svg were reported; only elements not yet in the
  seen-set were reported, and they are in it now.
\<close>

definition newCalls :: "world \<Rightarrow> world \<Rightarrow> (nat \<times> nid svgInfo) list" where
  "newCalls w w' = drop (length (calls w)) (calls w')"

definition quiet :: "world \<Rightarrow> world \<Rightarrow> bool" where
  "quiet w w' =
     (calls w' = calls w \<and> detectedSVGs w' = detectedSVGs w \<and> elementData w' = elementData w \<and>
      onSVGDetected w' = onSVGDetected w \<and> page w' = page w)"

definition svgOnly :: "world \<Rightarrow> world \<Rightarrow> bool" where
  "svgOnly w w' =
     (elementData w' = elementData w \<and>
      (\<exists>new. calls w' = calls w @ new \<and>
         (\<forall>y\<in>set new. toLowerCase (tag (elementData w (element (snd y)))) = ''svg'')))"

definition fresh :: "world \<Rightarrow> world \<Rightarrow> bool" where
  "fresh w w' =
     (detectedSVGs w \<subseteq> detectedSVGs w' \<and>
      (\<exists>new. calls w' = calls w @ new \<and>
         (\<forall>y\<in>set new. element (snd y) \<notin> detectedSVGs w \<and> element (snd y) \<in> detectedSVGs w')))"

section \<open>What the enhancer does\<close>

subsection \<open>Updates of single elements\<close>

lemma nodes_updNode [simp]:
  "nodes (updNode n f st) m = (if m = n then f (nodes st n) else nodes st m)"
  by (simp add: updNode_def)

lemma enhancedElements_updNode [simp]:
  "enhancedElements (updNode n f st) = enhancedElements st"
  by (simp add: updNode_def)

subsection \<open>Loops over elements\<close>

lemma forEachNode_Nil [simp]: "forEachNode f [] st = st"
  by (simp add: forEachNode_def)

lemma forEachNode_Cons [simp]:
  "forEachNode f (d # ds) st = forEachNode f ds (updNode (idOf d) f st)"
  by (simp add: forEachNode_def)

lemma enhancedElements_forEachNode [simp]:
  "enhancedElements (forEachNode f ds st) = enhancedElements st"
  by (induction ds arbitrary: st) simp_all

lemma forEachNode_other:
  "m \<notin> idOf ` set ds \<Longrightarrow> nodes (forEachNode f ds st) m = nodes st m"
  by (induction ds arbitrary: st) auto

lemma forEachNode_distinct:
  "distinct (map idOf ds) \<Longrightarrow>
   nodes (forEachNode f ds st) m = (if m \<in> idOf ` set ds then f (nodes st m) else nodes st m)"
proof (induction ds arbitrary: st)
  case Nil
  then show ?case by simp
next
  case (Cons d ds)
  then show ?case
    by (auto simp: forEachNode_other)
qed

lemma forEachNode_idem:
  "(\<And>e. f (f e) = f e) \<Longrightarrow>
   nodes (forEachNode f ds st) m = (if m \<in> idOf ` set ds then f (nodes st m) else nodes st m)"
proof (induction ds arbitrary: st)
  case Nil
  then show ?case by simp
next
  case (Cons d ds)
  then show ?case
    by auto
qed

lemma forEachNode_kept:
  "(\<And>e. p (f e) = p e) \<Longrightarrow> p (nodes (forEachNode f ds st) m) = p (nodes st m)"
  by (induction ds arbitrary: st) auto


lemma proj_setAttribute [simp]:
  "tag (setAttribute k v e) = tag e"
  "attrs (setAttribute k v e) = (attrs e)(k \<mapsto> v)"
  "classes (setAttribute k v e) = classes e"
  "style (setAttribute k v e) = style e"
  "computedCursor (setAttribute k v e) = computedCursor e"
  by (simp_all add: setAttribute_def)

lemma proj_removeAttribute [simp]:
  "tag (removeAttribute k e) = tag e"
  "attrs (removeAttribute k e) = (attrs e)(k := None)"
  "classes (removeAttribute k e) = classes e"
  "style (removeAttribute k e) = style e"
  "computedCursor (removeAttribute k e) = computedCursor e"
  by (simp_all add: removeAttribute_def)

lemma proj_classAdd [simp]:
  "tag (classAdd c e) = tag e"
  "attrs (classAdd c e) = attrs e"
  "classes (classAdd c e) = insert c (classes e)"
  "style (classAdd c e) = style e"
  "computedCursor (classAdd c e) = computedCursor e"
  by (simp_all add: classAdd_def)

lemma proj_classRemove [simp]:
  "tag (classRemove c e) = tag e"
  "attrs (classRemove c e) = attrs e"
  "classes (classRemove c e) = classes e - {c}"
  "style (classRemove c e) = style e"
  "computedCursor (classRemove c e) = computedCursor e"
  by (simp_all add: classRemove_def)

lemma proj_setStyle [simp]:
  "tag (setStyle p v e) = tag e"
  "attrs (setStyle p v e) = attrs e"
  "classes (setStyle p v e) = classes e"
  "style (setStyle p v e) = (style e)(p := v)"
  "computedCursor (setStyle p v e) = computedCursor e"
  by (simp_all add: setStyle_def)

lemma proj_getAttribute [simp]:
  "getAttribute k e = attrs e k" "hasAttribute k e = (attrs e k \<noteq> None)"
  by (simp_all add: getAttribute_def hasAttribute_def)

lemma tag_captureOriginals [simp]: "tag (captureOriginals e) = tag e"
  by (simp add: captureOriginals_def Let_def)

lemma tag_applyOutline [simp]: "tag (applyOutline s e) = tag e"
  by (simp add: applyOutline_def Let_def)

lemma tag_outlineElem [simp]: "tag (outlineElem s e) = tag e"
  by (simp add: outlineElem_def)

lemma nodes_pushModified [simp]: "nodes (pushModified svg d st) = nodes st"
  by (simp add: pushModified_def split: option.splits)

lemma nodes_outlineShape:
  "nodes (outlineShape s svg d st) m =
     (if m = idOf d \<and> \<not> skipped d st then outlineElem s (nodes st m) else nodes st m)"
  by (simp add: outlineShape_def outlineElem_def Let_def)

lemma skipped_tags:
  "(\<And>a. tag (nodes st' a) = tag (nodes st a)) \<Longrightarrow> skipped d st' = skipped d st"
  by (simp add: skipped_def closest_def list_ex_iff)

lemma skipped_outlineShape [simp]: "skipped d' (outlineShape s svg d st) = skipped d' st"
  by (rule skipped_tags) (simp add: nodes_outlineShape)

lemma distinct_ids_Cons:
  "distinct (map idOf (d # ds)) \<Longrightarrow> x \<in> set ds \<Longrightarrow> idOf x \<noteq> idOf d"
  by (metis distinct.simps(2) image_eqI list.simps(9) set_map)

lemma nodes_fold_outlineShape:
  "distinct (map idOf ds) \<Longrightarrow>
   nodes (fold (outlineShape s svg) ds st) m =
     (if \<exists>d\<in>set ds. idOf d = m \<and> \<not> skipped d st then outlineElem s (nodes st m)
      else nodes st m)"
proof (induction ds arbitrary: st)
  case Nil
  then show ?case by simp
next
  case (Cons d ds)
  have nd: "\<And>x. x \<in> set ds \<Longrightarrow> idOf x \<noteq> idOf d"
    using Cons.prems by (rule distinct_ids_Cons)
  have "distinct (map idOf ds)"
    using Cons.prems by simp
  from Cons.IH [OF this] nd show ?case
    by (auto simp: nodes_outlineShape)
qed

lemma enhancedElements_outlineShape:
  "enhancedElements st svg = Some r \<Longrightarrow>
   enhancedElements (outlineShape s svg d st) =
     (enhancedElements st)(svg \<mapsto> r\<lparr>modifiedShapes := modifiedShapes r @
        (if \<not> skipped d st \<and> \<not> truthy (attrs (nodes st (idOf d)) ''data-shiny-original-stroke'')
         then [d] else [])\<rparr>)"
  by (auto simp: outlineShape_def pushModified_def Let_def)

lemma enhancedElements_fold_outlineShape:
  "enhancedElements st svg = Some r \<Longrightarrow> distinct (map idOf ds) \<Longrightarrow>
   enhancedElements (fold (outlineShape s svg) ds st) =
     (enhancedElements st)(svg \<mapsto> r\<lparr>modifiedShapes := modifiedShapes r @
        filter (\<lambda>d. \<not> skipped d st \<and>
                     \<not> truthy (attrs (nodes st (idOf d)) ''data-shiny-original-stroke'')) ds\<rparr>)"
proof (induction ds arbitrary: st r)
  case Nil
  then show ?case by auto
next
  case (Cons d ds)
  let ?st = "outlineShape s svg d st"
  let ?r = "r\<lparr>modifiedShapes := modifiedShapes r @
        (if \<not> skipped d st \<and> \<not> truthy (attrs (nodes st (idOf d)) ''data-shiny-original-stroke'')
         then [d] else [])\<rparr>"
  have e: "enhancedElements ?st = (enhancedElements st)(svg \<mapsto> ?r)"
    using Cons.prems(1) by (rule enhancedElements_outlineShape)
  then have e1: "enhancedElements ?st svg = Some ?r"
    by simp
  have same: "filter (\<lambda>x. \<not> skipped x ?st \<and>
                     \<not> truthy (attrs (nodes ?st (idOf x)) ''data-shiny-original-stroke'')) ds
            = filter (\<lambda>x. \<not> skipped x st \<and>
                     \<not> truthy (attrs (nodes st (idOf x)) ''data-shiny-original-stroke'')) ds"
  proof (intro filter_cong refl)
    fix x assume "x \<in> set ds"
    then have "idOf x \<noteq> idOf d"
      using Cons.prems(2) distinct_ids_Cons by blast
    then show "(\<not> skipped x ?st \<and>
                 \<not> truthy (attrs (nodes ?st (idOf x)) ''data-shiny-original-stroke''))
             = (\<not> skipped x st \<and>
                 \<not> truthy (attrs (nodes st (idOf x)) ''data-shiny-original-stroke''))"
      by (simp add: nodes_outlineShape)
  qed
  have d: "distinct (map idOf ds)"
    using Cons.prems(2) by simp
  show ?case
    using Cons.IH [OF e1 d] e same by auto
qed


lemma outlineView_forEachNode:
  "(\<And>e. outlineView (f e) = outlineView e) \<Longrightarrow>
   outlineView (nodes (forEachNode f ds st) m) = outlineView (nodes st m)"
  by (rule forEachNode_kept)

lemma outlineView_later [simp]:
  "outlineView (highlight s e) = outlineView e"
  "outlineView (highlightComputed s e) = outlineView e"
  "outlineView (unhighlight e) = outlineView e"
  "outlineView (addFocus e) = outlineView e"
  "outlineView (removeFocus e) = outlineView e"
  "outlineView (setStyle ''filter'' v e) = outlineView e"
  "outlineView (classAdd ''shiny-enhanced'' e) = outlineView e"
  by (auto simp: outlineView_def highlight_def highlightComputed_def unhighlight_def addFocus_def
      removeFocus_def Let_def fun_eq_iff split: sum.splits)

lemma outlineView_passes [simp]:
  "outlineView (nodes (enhanceContrast svg s st) m) = outlineView (nodes st m)"
  "outlineView (nodes (addHighlighting svg s st) m) = outlineView (nodes st m)"
  "outlineView (nodes (removeHighlighting svg st) m) = outlineView (nodes st m)"
  "outlineView (nodes (addFocusIndicators svg st) m) = outlineView (nodes st m)"
  "outlineView (nodes (removeFocusIndicators svg st) m) = outlineView (nodes st m)"
  by (simp_all add: enhanceContrast_def addHighlighting_def removeHighlighting_def
      addFocusIndicators_def removeFocusIndicators_def Let_def outlineView_forEachNode)

lemma nodes_ensureStored [simp]: "nodes (ensureStored n r st) = nodes st"
  by (simp add: ensureStored_def)

lemma outlineView_enhanceInlineSVG:
  "outlineView (nodes (enhanceInlineSVG svg s st) m) =
     outlineView (nodes
       (if outlineEnabled s
        then addOutlines svg s
               (ensureStored (idOf svg)
                  \<lparr>originalFilter = style (nodes st (idOf svg)) ''filter'', modifiedShapes = []\<rparr> st)
        else removeOutlines
               (storedOf (idOf svg) (ensureStored (idOf svg)
                  \<lparr>originalFilter = style (nodes st (idOf svg)) ''filter'', modifiedShapes = []\<rparr> st))
               (ensureStored (idOf svg)
                  \<lparr>originalFilter = style (nodes st (idOf svg)) ''filter'', modifiedShapes = []\<rparr> st)) m)"
  by (simp add: enhanceInlineSVG_def Let_def)

lemma viewD:
  "outlineView e' = outlineView e \<Longrightarrow>
     attrs e' ''stroke'' = attrs e ''stroke'' \<and>
     attrs e' ''stroke-width'' = attrs e ''stroke-width'' \<and>
     attrs e' ''data-shiny-original-stroke'' = attrs e ''data-shiny-original-stroke'' \<and>
     attrs e' ''data-shiny-original-stroke-width'' = attrs e ''data-shiny-original-stroke-width'' \<and>
     attrs e' ''data-shiny-original-paint-order'' = attrs e ''data-shiny-original-paint-order'' \<and>
     style e' ''paint-order'' = style e ''paint-order'' \<and>
     (''shiny-outlined'' \<in> classes e') = (''shiny-outlined'' \<in> classes e)"
  by (simp add: outlineView_def fun_eq_iff) (metis (full_types))


lemma querySelectorAll_ensureStored [simp]:
  "querySelectorAll sel svg (ensureStored n r st) = querySelectorAll sel svg st"
  by (simp add: querySelectorAll_def)

lemma skipped_ensureStored [simp]: "skipped d (ensureStored n r st) = skipped d st"
  by (rule skipped_tags) simp

lemma distinct_querySelectorAll:
  "distinct (map idOf (descendantNodes svg)) \<Longrightarrow> distinct (map idOf (querySelectorAll sel svg st))"
  by (simp add: querySelectorAll_def distinct_map_filter)

lemma set_querySelectorAll [simp]:
  "set (querySelectorAll sel svg st) = {d \<in> set (descendantNodes svg). sel (nodes st (idOf d))}"
  by (simp add: querySelectorAll_def)

lemma nodes_addOutlines:
  assumes "distinct (map idOf (descendantNodes svg))"
  shows "nodes (addOutlines svg s st) m =
     (if \<exists>d\<in>set (descendantNodes svg). idOf d = m \<and> isShape (nodes st m) \<and> \<not> skipped d st
      then outlineElem s (nodes st m) else nodes st m)"
  unfolding addOutlines_def
  by (subst nodes_fold_outlineShape [OF distinct_querySelectorAll [OF assms]]) auto

lemma attrs_restoreShape:
  "k \<noteq> ''stroke'' \<Longrightarrow> k \<noteq> ''stroke-width'' \<Longrightarrow> attrs (restoreShape e) k = attrs e k"
  by (simp add: restoreShape_def Let_def split: option.splits)

lemma attrs_removeOutlines:
  "k \<noteq> ''stroke'' \<Longrightarrow> k \<noteq> ''stroke-width'' \<Longrightarrow>
   attrs (nodes (removeOutlines r st) m) k = attrs (nodes st m) k"
  unfolding removeOutlines_def
  by (rule forEachNode_kept [where p = "\<lambda>e. attrs e k"]) (rule attrs_restoreShape)

lemma originals_outlineElem:
  "attrs (outlineElem s e) ''data-shiny-original-stroke'' =
     (if truthy (attrs e ''data-shiny-original-stroke'') then attrs e ''data-shiny-original-stroke''
      else Some (orEmpty (attrs e ''stroke'')))"
  "attrs (outlineElem s e) ''data-shiny-original-stroke-width'' =
     (if truthy (attrs e ''data-shiny-original-stroke'') then attrs e ''data-shiny-original-stroke-width''
      else Some (orEmpty (attrs e ''stroke-width'')))"
  "attrs (outlineElem s e) ''data-shiny-original-paint-order'' =
     (if truthy (attrs e ''data-shiny-original-stroke'') then attrs e ''data-shiny-original-paint-order''
      else Some (style e ''paint-order''))"
  by (simp_all add: outlineElem_def applyOutline_def captureOriginals_def Let_def)

lemma truthy_orEmpty: "truthy v \<Longrightarrow> Some (orEmpty v) = v"
  by (cases v) (simp_all add: truthy_def orEmpty_def)

lemma restoreShape_alt:
  "restoreShape e =
     e\<lparr>attrs := (attrs e)(''stroke'' := restoredStroke e, ''stroke-width'' := restoredWidth e),
       classes := classes e - {''shiny-outlined''},
       style := (style e)(''paint-order'' := restoredPaintOrder e)\<rparr>"
proof (cases "attrs e ''data-shiny-original-paint-order''")
  case None
  then show ?thesis
    by (simp add: restoreShape_def Let_def setAttribute_def removeAttribute_def setStyle_def
        classRemove_def restoredStroke_def restoredWidth_def restoredPaintOrder_def truthy_orEmpty)
next
  case (Some v)
  then show ?thesis
    by (simp add: restoreShape_def Let_def setAttribute_def removeAttribute_def setStyle_def
        classRemove_def restoredStroke_def restoredWidth_def restoredPaintOrder_def truthy_orEmpty)
qed

lemma restoreShape_idem: "restoreShape (restoreShape e) = restoreShape e"
proof -
  have a: "restoredStroke (restoreShape e) = restoredStroke e"
    "restoredWidth (restoreShape e) = restoredWidth e"
    "restoredPaintOrder (restoreShape e) = restoredPaintOrder e"
    by (simp_all add: restoreShape_alt [of e] restoredStroke_def restoredWidth_def
        restoredPaintOrder_def split: option.splits)
  have "restoreShape (restoreShape e) =
      (restoreShape e)\<lparr>attrs := (attrs (restoreShape e))
           (''stroke'' := restoredStroke e, ''stroke-width'' := restoredWidth e),
         classes := classes (restoreShape e) - {''shiny-outlined''},
         style := (style (restoreShape e))(''paint-order'' := restoredPaintOrder e)\<rparr>"
    by (subst restoreShape_alt) (simp only: a)
  also have "\<dots> = restoreShape e"
    by (simp add: restoreShape_alt [of e])
  finally show ?thesis .
qed

lemma nodes_removeOutlines:
  "nodes (removeOutlines r st) m =
     (if m \<in> idOf ` set (modifiedShapes r) then restoreShape (nodes st m) else nodes st m)"
  unfolding removeOutlines_def by (rule forEachNode_idem) (rule restoreShape_idem)

lemma enhancedElements_passes [simp]:
  "enhancedElements (removeOutlines r st) = enhancedElements st"
  "enhancedElements (enhanceContrast svg s st) = enhancedElements st"
  "enhancedElements (addHighlighting svg s st) = enhancedElements st"
  "enhancedElements (removeHighlighting svg st) = enhancedElements st"
  "enhancedElements (addFocusIndicators svg st) = enhancedElements st"
  "enhancedElements (removeFocusIndicators svg st) = enhancedElements st"
  by (simp_all add: removeOutlines_def enhanceContrast_def addHighlighting_def
      removeHighlighting_def addFocusIndicators_def removeFocusIndicators_def Let_def)

lemma ensureStored_present: "enhancedElements st n = Some r \<Longrightarrow> ensureStored n r' st = st"
  by (simp add: ensureStored_def)

lemma restoreShape_result:
  "attrs (restoreShape e) ''stroke'' = restoredStroke e"
  "attrs (restoreShape e) ''stroke-width'' = restoredWidth e"
  "style (restoreShape e) ''paint-order'' = restoredPaintOrder e"
  "''shiny-outlined'' \<notin> classes (restoreShape e)"
  by (simp_all add: restoreShape_alt [of e])

subsection \<open>The root of a nested document\<close>

lemma find_first: "list_all (\<lambda>y. \<not> P y) before \<Longrightarrow> P x \<Longrightarrow> find P (before @ x # rest) = Some x"
  by (induction before) simp_all

lemma documentSvg_first:
  "subnodes [] d = before @ svg # rest \<Longrightarrow>
   list_all (\<lambda>x. tag (nodes st (idOf x)) \<noteq> ''svg'') before \<Longrightarrow>
   tag (nodes st (idOf svg)) = ''svg'' \<Longrightarrow> documentSvg d st = Some svg"
  by (simp add: documentSvg_def find_first)

lemma documentSvg_none:
  "list_all (\<lambda>x. tag (nodes st (idOf x)) \<noteq> ''svg'') (subnodes [] d) \<Longrightarrow> documentSvg d st = None"
  by (simp add: documentSvg_def find_None_iff list_all_iff)

subsection \<open>Frames of the passes\<close>

lemma frame_refl [simp]: "frame A C S e e"
  by (simp add: frame_def)

lemma frame_trans: "frame A C S e1 e2 \<Longrightarrow> frame A C S e2 e3 \<Longrightarrow> frame A C S e1 e3"
  by (simp add: frame_def)

lemma frame_forEachNode:
  "(\<And>e. frame A C S e (f e)) \<Longrightarrow> frame A C S (nodes st m) (nodes (forEachNode f ds st) m)"
proof (induction ds arbitrary: st)
  case Nil
  then show ?case by simp
next
  case (Cons d ds)
  have "frame A C S (nodes st m) (nodes (updNode (idOf d) f st) m)"
    using Cons.prems by simp
  moreover have "frame A C S (nodes (updNode (idOf d) f st) m)
      (nodes (forEachNode f ds (updNode (idOf d) f st)) m)"
    using Cons.prems by (rule Cons.IH)
  ultimately show ?case
    by (simp del: nodes_updNode) (rule frame_trans)
qed

lemma frame_fold_outlineShape:
  "(\<And>e. frame A C S e (outlineElem s e)) \<Longrightarrow>
   frame A C S (nodes st m) (nodes (fold (outlineShape s svg) ds st) m)"
proof (induction ds arbitrary: st)
  case Nil
  then show ?case by simp
next
  case (Cons d ds)
  have "frame A C S (nodes st m) (nodes (outlineShape s svg d st) m)"
    using Cons.prems by (simp add: nodes_outlineShape)
  moreover have "frame A C S (nodes (outlineShape s svg d st) m)
      (nodes (fold (outlineShape s svg) ds (outlineShape s svg d st)) m)"
    using Cons.prems by (rule Cons.IH)
  ultimately show ?case
    by simp (rule frame_trans)
qed

lemma frame_outlineElem:
  "{''stroke'', ''stroke-width'', ''data-shiny-original-stroke'',
    ''data-shiny-original-stroke-width'', ''data-shiny-original-paint-order''} \<subseteq> A \<Longrightarrow>
   ''shiny-outlined'' \<in> C \<Longrightarrow> ''paint-order'' \<in> S \<Longrightarrow> frame A C S e (outlineElem s e)"
  by (auto simp: frame_def outlineElem_def applyOutline_def captureOriginals_def Let_def)

lemma frame_restoreShape:
  "{''stroke'', ''stroke-width''} \<subseteq> A \<Longrightarrow>
   ''shiny-outlined'' \<in> C \<Longrightarrow> ''paint-order'' \<in> S \<Longrightarrow> frame A C S e (restoreShape e)"
  by (auto simp: frame_def restoreShape_alt)

lemma frame_highlight:
  assumes "''shiny-highlightable'' \<in> C" "''--shiny-highlight-color'' \<in> S"
  shows "frame A C S e (highlight s e)" "frame A C S e (highlightComputed s e)"
    "frame A C S e (unhighlight e)"
  using assms
  by (auto simp: frame_def highlight_def highlightComputed_def unhighlight_def split: sum.splits)

lemma frame_focus:
  assumes "{''tabindex'', ''data-shiny-added-tabindex''} \<subseteq> A" "''shiny-focusable'' \<in> C"
  shows "frame A C S e (addFocus e)" "frame A C S e (removeFocus e)"
  using assms by (auto simp: frame_def addFocus_def removeFocus_def Let_def)

lemma frame_addOutlines:
  "{''stroke'', ''stroke-width'', ''data-shiny-original-stroke'',
    ''data-shiny-original-stroke-width'', ''data-shiny-original-paint-order''} \<subseteq> A \<Longrightarrow>
   ''shiny-outlined'' \<in> C \<Longrightarrow> ''paint-order'' \<in> S \<Longrightarrow>
   frame A C S (nodes st m) (nodes (addOutlines svg s st) m)"
  unfolding addOutlines_def by (rule frame_fold_outlineShape) (rule frame_outlineElem)

lemma frame_removeOutlines:
  "{''stroke'', ''stroke-width''} \<subseteq> A \<Longrightarrow>
   ''shiny-outlined'' \<in> C \<Longrightarrow> ''paint-order'' \<in> S \<Longrightarrow>
   frame A C S (nodes st m) (nodes (removeOutlines r st) m)"
  unfolding removeOutlines_def by (rule frame_forEachNode) (rule frame_restoreShape)

lemma frame_highlighting:
  assumes "''shiny-highlightable'' \<in> C" "''--shiny-highlight-color'' \<in> S"
  shows "frame A C S (nodes st m) (nodes (addHighlighting svg s st) m)"
    "frame A C S (nodes st m) (nodes (removeHighlighting svg st) m)"
proof -
  let ?st1 = "forEachNode (highlight s) (querySelectorAll interactive svg st) st"
  have "frame A C S (nodes st m) (nodes ?st1 m)"
    by (rule frame_forEachNode) (rule frame_highlight [OF assms])
  moreover have "frame A C S (nodes ?st1 m)
     (nodes (forEachNode (highlightComputed s) (querySelectorAll (\<lambda>e. True) svg ?st1) ?st1) m)"
    by (rule frame_forEachNode) (rule frame_highlight [OF assms])
  ultimately show "frame A C S (nodes st m) (nodes (addHighlighting svg s st) m)"
    unfolding addHighlighting_def Let_def by (rule frame_trans)
  show "frame A C S (nodes st m) (nodes (removeHighlighting svg st) m)"
    unfolding removeHighlighting_def by (rule frame_forEachNode) (rule frame_highlight [OF assms])
qed

lemma frame_focusIndicators:
  assumes "{''tabindex'', ''data-shiny-added-tabindex''} \<subseteq> A" "''shiny-focusable'' \<in> C"
  shows "frame A C S (nodes st m) (nodes (addFocusIndicators svg st) m)"
    "frame A C S (nodes st m) (nodes (removeFocusIndicators svg st) m)"
  unfolding addFocusIndicators_def removeFocusIndicators_def
  by (rule frame_forEachNode, rule frame_focus [OF assms])+

lemma forEach_query:
  assumes "distinct (map idOf (descendantNodes svg))"
  shows "nodes (forEachNode f (querySelectorAll sel svg st) st) m =
     (if m \<in> idOf ` set (descendantNodes svg) \<and> sel (nodes st m) then f (nodes st m)
      else nodes st m)"
  by (subst forEachNode_distinct [OF distinct_querySelectorAll [OF assms]]) auto

lemma removeOutlines_empty [simp]: "modifiedShapes r = [] \<Longrightarrow> removeOutlines r st = st"
  by (simp add: removeOutlines_def)

lemma storedOf_ensureStored:
  "enhancedElements st n = None \<Longrightarrow> storedOf n (ensureStored n r st) = r"
  by (simp add: storedOf_def ensureStored_def)

lemma enhance_descendant:
  assumes dist: "distinct (map idOf (descendantNodes svg))"
    and mD: "m \<in> idOf ` set (descendantNodes svg)"
    and mn: "m \<noteq> idOf svg"
    and fresh: "enhancedElements st (idOf svg) = None"
  shows "\<exists>e1 e3.
     e1 = (if outlineEnabled s \<and> eligible svg st m then outlineElem s (nodes st m) else nodes st m) \<and>
     nonOutline e1 (nodes (enhanceInlineSVG svg s st) m) \<and>
     nonFocus (nodes st m) e3 \<and>
     nodes (enhanceInlineSVG svg s st) m = focusPass s e3 \<and>
     anyPass (nodes st m) (nodes (enhanceInlineSVG svg s st) m)"
proof -
  define n where "n = idOf svg"
  define r0 where "r0 = \<lparr>originalFilter = style (nodes st n) ''filter'', modifiedShapes = []\<rparr>"
  define st0 where "st0 = ensureStored n r0 st"
  define st1 where "st1 = (if outlineEnabled s then addOutlines svg s st0
                           else removeOutlines (storedOf n st0) st0)"
  define st2 where "st2 = (if contrastEnabled s then enhanceContrast svg s st1
                 else updNode n (setStyle ''filter'' (originalFilter (storedOf n st1))) st1)"
  define st3 where "st3 = (if highlightEnabled s then addHighlighting svg s st2
                 else removeHighlighting svg st2)"
  define st4 where "st4 = (if focusIndicators s then addFocusIndicators svg st3
                 else removeFocusIndicators svg st3)"
  have whole: "enhanceInlineSVG svg s st = updNode n (classAdd ''shiny-enhanced'') st4"
    by (simp add: enhanceInlineSVG_def Let_def n_def r0_def st0_def st1_def st2_def st3_def st4_def)
  have n0: "nodes st0 = nodes st"
    by (simp add: st0_def)
  have r: "storedOf n st0 = r0"
    using fresh unfolding st0_def n_def by (rule storedOf_ensureStored)
  have e1: "nodes st1 m =
      (if outlineEnabled s \<and> eligible svg st m then outlineElem s (nodes st m) else nodes st m)"
  proof (cases "outlineEnabled s")
    case True
    have "skipped d st0 = skipped d st" for d
      unfolding st0_def by simp
    with True show ?thesis
      by (auto simp: st1_def nodes_addOutlines [OF dist] n0 eligible_def)
  next
    case False
    then have "st1 = st0"
      by (simp add: st1_def r r0_def)
    with False show ?thesis
      by (simp add: n0)
  qed
  have s12: "nodes st2 m = nodes st1 m"
    using mn by (simp add: st2_def enhanceContrast_def Let_def n_def)
  have s45: "nodes (enhanceInlineSVG svg s st) m = nodes st4 m"
    using mn by (simp add: whole n_def)
  have s34: "nodes st4 m = focusPass s (nodes st3 m)"
    using mD by (simp add: st4_def focusPass_def addFocusIndicators_def removeFocusIndicators_def
        forEach_query [OF dist])
  have no: "nonOutline (nodes st1 m) (nodes st4 m)"
  proof -
    have "nonOutline (nodes st2 m) (nodes st3 m)"
      unfolding st3_def by (simp add: frame_highlighting)
    moreover have "nonOutline (nodes st3 m) (nodes st4 m)"
      unfolding st4_def by (simp add: frame_focusIndicators)
    ultimately show ?thesis
      unfolding s12 by (rule frame_trans)
  qed
  have nf: "nonFocus (nodes st m) (nodes st3 m)"
  proof -
    have "nonFocus (nodes st0 m) (nodes st1 m)"
      unfolding st1_def by (simp add: frame_addOutlines frame_removeOutlines)
    moreover have "nonFocus (nodes st2 m) (nodes st3 m)"
      unfolding st3_def by (simp add: frame_highlighting)
    ultimately show ?thesis
      unfolding s12 n0 by (rule frame_trans)
  qed
  have any: "anyPass (nodes st m) (nodes st4 m)"
  proof -
    have "anyPass (nodes st0 m) (nodes st1 m)"
      unfolding st1_def by (simp add: frame_addOutlines frame_removeOutlines)
    moreover have "anyPass (nodes st2 m) (nodes st3 m)"
      unfolding st3_def by (simp add: frame_highlighting)
    moreover have "anyPass (nodes st3 m) (nodes st4 m)"
      unfolding st4_def by (simp add: frame_focusIndicators)
    ultimately show ?thesis
      unfolding s12 n0 by (blast intro: frame_trans)
  qed
  show ?thesis
    using e1 no nf s34 any unfolding s45 by metis
qed

lemma outline_roundtrip:
  assumes u: "\<not> truthy (attrs e0 ''data-shiny-original-stroke'')" "''shiny-outlined'' \<notin> classes e0"
    and e1: "e1 = (if c then outlineElem s e0 else e0)"
    and f1: "nonOutline e1 e5"
    and e6: "e6 = (if c then restoreShape e5 else e5)"
    and f2: "nonOutline e6 e9"
  shows "style e9 ''paint-order'' = style e0 ''paint-order'' \<and>
     orEmpty (attrs e9 ''stroke'') = orEmpty (attrs e0 ''stroke'') \<and>
     (attrs e0 ''stroke'' \<noteq> Some [] \<longrightarrow> attrs e9 ''stroke'' = attrs e0 ''stroke'') \<and>
     orEmpty (attrs e9 ''stroke-width'') = orEmpty (attrs e0 ''stroke-width'') \<and>
     (attrs e0 ''stroke-width'' \<noteq> Some [] \<longrightarrow> attrs e9 ''stroke-width'' = attrs e0 ''stroke-width'') \<and>
     ''shiny-outlined'' \<notin> classes e9"
proof (cases c)
  case False
  with e1 e6 f1 f2 u show ?thesis
    by (simp add: frame_def)
next
  case True
  have a: "attrs e5 ''data-shiny-original-stroke'' = Some (orEmpty (attrs e0 ''stroke''))"
    "attrs e5 ''data-shiny-original-stroke-width'' = Some (orEmpty (attrs e0 ''stroke-width''))"
    "attrs e5 ''data-shiny-original-paint-order'' = Some (style e0 ''paint-order'')"
    using True e1 f1 u(1) by (simp_all add: frame_def originals_outlineElem)
  have b: "attrs e9 ''stroke'' = restoredStroke e5"
    "attrs e9 ''stroke-width'' = restoredWidth e5"
    "style e9 ''paint-order'' = restoredPaintOrder e5"
    "''shiny-outlined'' \<notin> classes e9"
    using True e6 f2 restoreShape_result [of e5] by (simp_all add: frame_def)
  show ?thesis
    unfolding b using b(4) a
    by (cases "attrs e0 ''stroke''"; cases "attrs e0 ''stroke-width''")
       (simp_all add: restoredStroke_def restoredWidth_def restoredPaintOrder_def truthy_def orEmpty_def)
qed

lemma focus_roundtrip:
  assumes u: "\<not> truthy (attrs e0 ''data-shiny-added-tabindex'')" "''shiny-focusable'' \<notin> classes e0"
    and f1: "nonFocus e0 e3"
    and e5: "e5 = focusPass s e3"
    and f2: "nonFocus e5 e7"
    and e9: "e9 = (if ''shiny-focusable'' \<in> classes e7 then removeFocus e7 else e7)"
  shows "attrs e9 ''tabindex'' = attrs e0 ''tabindex'' \<and> ''shiny-focusable'' \<notin> classes e9"
proof -
  have k3: "attrs e3 ''tabindex'' = attrs e0 ''tabindex''"
    "attrs e3 ''data-shiny-added-tabindex'' = attrs e0 ''data-shiny-added-tabindex''"
    "''shiny-focusable'' \<notin> classes e3"
    using f1 u by (simp_all add: frame_def)
  have k7: "attrs e7 ''tabindex'' = attrs e5 ''tabindex''"
    "attrs e7 ''data-shiny-added-tabindex'' = attrs e5 ''data-shiny-added-tabindex''"
    "(''shiny-focusable'' \<in> classes e7) = (''shiny-focusable'' \<in> classes e5)"
    using f2 by (simp_all add: frame_def)
  show ?thesis
    unfolding e9 using k3 k7 u(1)
    by (auto simp: e5 focusPass_def addFocus_def removeFocus_def Let_def truthy_def
        split: if_splits)
qed

lemma enhance_record:
  assumes dist: "distinct (map idOf (descendantNodes svg))"
    and fresh: "enhancedElements st (idOf svg) = None"
  shows "enhancedElements (enhanceInlineSVG svg s st) (idOf svg) =
     Some \<lparr>originalFilter = style (nodes st (idOf svg)) ''filter'',
           modifiedShapes =
             (if outlineEnabled s
              then filter (\<lambda>d. \<not> skipped d st \<and>
                     \<not> truthy (attrs (nodes st (idOf d)) ''data-shiny-original-stroke''))
                     (querySelectorAll isShape svg st)
              else [])\<rparr>"
proof -
  let ?r0 = "\<lparr>originalFilter = style (nodes st (idOf svg)) ''filter'', modifiedShapes = []\<rparr>"
  let ?st0 = "ensureStored (idOf svg) ?r0 st"
  have r: "enhancedElements ?st0 (idOf svg) = Some ?r0"
    using fresh by (simp add: ensureStored_def)
  have "enhancedElements (addOutlines svg s ?st0) (idOf svg) =
     Some \<lparr>originalFilter = style (nodes st (idOf svg)) ''filter'',
           modifiedShapes = filter (\<lambda>d. \<not> skipped d st \<and>
                     \<not> truthy (attrs (nodes st (idOf d)) ''data-shiny-original-stroke''))
                     (querySelectorAll isShape svg st)\<rparr>"
    unfolding addOutlines_def
    by (subst enhancedElements_fold_outlineShape [OF r distinct_querySelectorAll [OF dist]]) simp
  then show ?thesis
    using r by (simp add: enhanceInlineSVG_def Let_def)
qed

lemma enhance_root:
  assumes dist: "distinct (map idOf (descendantNodes svg))"
    and root: "idOf svg \<notin> idOf ` set (descendantNodes svg)"
    and fresh: "enhancedElements st (idOf svg) = None"
  shows "frame {} {''shiny-enhanced''} {''filter''}
           (nodes st (idOf svg)) (nodes (enhanceInlineSVG svg s st) (idOf svg))"
proof -
  let ?n = "idOf svg"
  let ?r0 = "\<lparr>originalFilter = style (nodes st ?n) ''filter'', modifiedShapes = []\<rparr>"
  let ?st0 = "ensureStored ?n ?r0 st"
  let ?st1 = "if outlineEnabled s then addOutlines svg s ?st0
              else removeOutlines (storedOf ?n ?st0) ?st0"
  have r: "storedOf ?n ?st0 = ?r0"
    using fresh by (rule storedOf_ensureStored)
  have ne: "idOf d \<noteq> ?n" if "d \<in> set (descendantNodes svg)" for d
    using root that by (metis imageI)
  have a: "nodes ?st1 ?n = nodes st ?n"
    using ne by (auto simp: r nodes_addOutlines [OF dist])
  have b: "nodes (forEachNode f (querySelectorAll sel svg t) t) ?n = nodes t ?n" for f sel t
    using root by (simp add: forEach_query [OF dist])
  show ?thesis
    unfolding enhanceInlineSVG_def Let_def
    by (cases "contrastEnabled s")
       (simp_all add: enhanceContrast_def addHighlighting_def removeHighlighting_def
         addFocusIndicators_def removeFocusIndicators_def Let_def b a frame_def
         del: nodes_ensureStored)
qed

lemma restore_record:
  "enhancedElements (restore svg t) (idOf svg) = None"
  by (simp add: restore_def Let_def split: option.splits)

lemma restore_root:
  assumes dist: "distinct (map idOf (descendantNodes svg))"
    and root: "idOf svg \<notin> idOf ` set (descendantNodes svg)"
    and rec: "enhancedElements t (idOf svg) = Some r"
    and shapes: "idOf svg \<notin> idOf ` set (modifiedShapes r)"
    and svg: "toLowerCase (tag (nodes t (idOf svg))) = ''svg''"
  shows "nodes (restore svg t) (idOf svg) =
           classRemove ''shiny-enhanced'' (setStyle ''filter'' (originalFilter r) (nodes t (idOf svg)))"
proof -
  have b: "nodes (forEachNode f (querySelectorAll sel svg u) u) (idOf svg) = nodes u (idOf svg)"
    for f sel u
    using root by (simp add: forEach_query [OF dist])
  show ?thesis
    using rec svg shapes
    by (simp add: restore_def Let_def removeHighlighting_def removeFocusIndicators_def b
        nodes_removeOutlines)
qed

lemma restore_descendant:
  assumes dist: "distinct (map idOf (descendantNodes svg))"
    and mD: "m \<in> idOf ` set (descendantNodes svg)"
    and mn: "m \<noteq> idOf svg"
    and rec: "enhancedElements t (idOf svg) = Some r"
    and svg: "toLowerCase (tag (nodes t (idOf svg))) = ''svg''"
  shows "\<exists>e6 e7.
     e6 = (if m \<in> idOf ` set (modifiedShapes r) then restoreShape (nodes t m) else nodes t m) \<and>
     nonOutline e6 (nodes (restore svg t) m) \<and>
     nonFocus (nodes t m) e7 \<and>
     nodes (restore svg t) m = (if ''shiny-focusable'' \<in> classes e7 then removeFocus e7 else e7) \<and>
     ''shiny-highlightable'' \<notin> classes (nodes (restore svg t) m) \<and>
     anyPass (nodes t m) (nodes (restore svg t) m)"
proof -
  define n where "n = idOf svg"
  define a where "a = updNode n (setStyle ''filter'' (originalFilter r)) t"
  define b where "b = removeOutlines r a"
  define c where "c = removeHighlighting svg b"
  define d where "d = removeFocusIndicators svg c"
  have whole: "nodes (restore svg t) m = nodes d m"
    using rec svg mn by (simp add: restore_def Let_def n_def a_def b_def c_def d_def)
  have ta: "nodes a m = nodes t m"
    using mn by (simp add: a_def n_def)
  have e6: "nodes b m =
      (if m \<in> idOf ` set (modifiedShapes r) then restoreShape (nodes t m) else nodes t m)"
    by (simp add: b_def nodes_removeOutlines ta)
  have bc: "nodes c m = (if ''shiny-highlightable'' \<in> classes (nodes b m)
                         then unhighlight (nodes b m) else nodes b m)"
    using mD by (simp add: c_def removeHighlighting_def forEach_query [OF dist])
  have cd: "nodes d m = (if ''shiny-focusable'' \<in> classes (nodes c m)
                         then removeFocus (nodes c m) else nodes c m)"
    using mD by (simp add: d_def removeFocusIndicators_def forEach_query [OF dist])
  have hl: "''shiny-highlightable'' \<notin> classes (nodes d m)"
    unfolding cd bc by (simp add: unhighlight_def removeFocus_def Let_def)
  have no: "nonOutline (nodes b m) (nodes d m)"
  proof -
    have "nonOutline (nodes b m) (nodes c m)"
      unfolding c_def by (simp add: frame_highlighting)
    moreover have "nonOutline (nodes c m) (nodes d m)"
      unfolding d_def by (simp add: frame_focusIndicators)
    ultimately show ?thesis
      by (rule frame_trans)
  qed
  have nf: "nonFocus (nodes t m) (nodes c m)"
  proof -
    have "nonFocus (nodes a m) (nodes b m)"
      unfolding b_def by (simp add: frame_removeOutlines)
    moreover have "nonFocus (nodes b m) (nodes c m)"
      unfolding c_def by (simp add: frame_highlighting)
    ultimately show ?thesis
      unfolding ta by (rule frame_trans)
  qed
  have any: "anyPass (nodes t m) (nodes d m)"
  proof -
    have "anyPass (nodes a m) (nodes b m)"
      unfolding b_def by (simp add: frame_removeOutlines)
    moreover have "anyPass (nodes b m) (nodes c m)"
      unfolding c_def by (simp add: frame_highlighting)
    moreover have "anyPass (nodes c m) (nodes d m)"
      unfolding d_def by (simp add: frame_focusIndicators)
    ultimately show ?thesis
      unfolding ta by (blast intro: frame_trans)
  qed
  show ?thesis
    using e6 no nf cd hl any unfolding whole by metis
qed

lemma restoredTo_refl: "restoredTo e e"
  by (simp add: restoredTo_def)

lemma untouchedD:
  "untouched e \<Longrightarrow>
     ''shiny-enhanced'' \<notin> classes e \<and> ''shiny-enhanced-img'' \<notin> classes e \<and>
     ''shiny-outlined'' \<notin> classes e \<and> ''shiny-highlightable'' \<notin> classes e \<and>
     ''shiny-focusable'' \<notin> classes e \<and>
     \<not> truthy (attrs e ''data-shiny-original-stroke'') \<and>
     \<not> truthy (attrs e ''data-shiny-added-tabindex'')"
  by (simp add: untouched_def markerClasses_def)

lemma inline_roundtrip:
  assumes ids: "distinct (idOf g # map idOf (descendantNodes g))"
    and clean: "pristine g st"
    and svg: "toLowerCase (tag (nodes st (idOf g))) = ''svg''"
    and m: "m \<in> set (idOf g # map idOf (descendantNodes g))"
  shows "restoredTo (nodes st m) (nodes (restore g (enhanceInlineSVG g s st)) m)"
proof -
  let ?st1 = "enhanceInlineSVG g s st"
  let ?L = "if outlineEnabled s
            then filter (\<lambda>d. \<not> skipped d st \<and>
                   \<not> truthy (attrs (nodes st (idOf d)) ''data-shiny-original-stroke''))
                   (querySelectorAll isShape g st)
            else []"
  let ?r = "\<lparr>originalFilter = style (nodes st (idOf g)) ''filter'', modifiedShapes = ?L\<rparr>"
  have dist: "distinct (map idOf (descendantNodes g))"
    and root: "idOf g \<notin> idOf ` set (descendantNodes g)"
    using ids by simp_all
  have fresh: "enhancedElements st (idOf g) = None"
    using clean by (simp add: pristine_def)
  have unt: "untouched (nodes st x)" if "x \<in> set (idOf g # map idOf (descendantNodes g))" for x
    using clean that by (simp add: pristine_def list_all_iff del: set_simps)
  have rec: "enhancedElements ?st1 (idOf g) = Some ?r"
    using dist fresh by (rule enhance_record)
  have rootf: "frame {} {''shiny-enhanced''} {''filter''} (nodes st (idOf g)) (nodes ?st1 (idOf g))"
    using dist root fresh by (rule enhance_root)
  have svg1: "toLowerCase (tag (nodes ?st1 (idOf g))) = ''svg''"
    using rootf svg by (simp add: frame_def)
  have inL: "(x \<in> idOf ` set (modifiedShapes ?r)) = (outlineEnabled s \<and> eligible g st x)"
    if "x \<in> idOf ` set (descendantNodes g)" for x
  proof -
    have "\<not> truthy (attrs (nodes st x) ''data-shiny-original-stroke'')"
      using unt [of x] that untouchedD by simp
    then show ?thesis
      by (auto simp: eligible_def)
  qed
  show ?thesis
  proof (cases "m = idOf g")
    case True
    have "idOf g \<notin> idOf ` set (modifiedShapes ?r)"
      using root by auto
    from restore_root [OF dist root rec this svg1]
    have fin: "nodes (restore g ?st1) (idOf g) =
        classRemove ''shiny-enhanced''
          (setStyle ''filter'' (style (nodes st (idOf g)) ''filter'') (nodes ?st1 (idOf g)))"
      by simp
    have "''shiny-enhanced'' \<notin> classes (nodes st (idOf g))"
      using unt [of "idOf g"] untouchedD by simp
    then have "classes (nodes ?st1 (idOf g)) - {''shiny-enhanced''} = classes (nodes st (idOf g))"
      using rootf unfolding frame_def by (simp add: set_eq_iff) metis
    then show ?thesis
      using rootf unfolding True fin by (simp add: restoredTo_def frame_def)
  next
    case False
    then have mD: "m \<in> idOf ` set (descendantNodes g)"
      using m by simp
    note u = untouchedD [OF unt [OF m]]
    from enhance_descendant [OF dist mD False fresh, of s]
    obtain e1 e3 where
      e1: "e1 = (if outlineEnabled s \<and> eligible g st m then outlineElem s (nodes st m) else nodes st m)"
      and no1: "nonOutline e1 (nodes ?st1 m)"
      and nf1: "nonFocus (nodes st m) e3"
      and f1: "nodes ?st1 m = focusPass s e3"
      and any1: "anyPass (nodes st m) (nodes ?st1 m)"
      by blast
    from restore_descendant [OF dist mD False rec svg1]
    obtain e6 e7 where
      e6: "e6 = (if m \<in> idOf ` set (modifiedShapes ?r) then restoreShape (nodes ?st1 m) else nodes ?st1 m)"
      and no2: "nonOutline e6 (nodes (restore g ?st1) m)"
      and nf2: "nonFocus (nodes ?st1 m) e7"
      and f2: "nodes (restore g ?st1) m =
                 (if ''shiny-focusable'' \<in> classes e7 then removeFocus e7 else e7)"
      and hl: "''shiny-highlightable'' \<notin> classes (nodes (restore g ?st1) m)"
      and any2: "anyPass (nodes ?st1 m) (nodes (restore g ?st1) m)"
      by blast
    have e6': "e6 = (if outlineEnabled s \<and> eligible g st m then restoreShape (nodes ?st1 m)
                     else nodes ?st1 m)"
      unfolding e6 inL [OF mD] ..
    from outline_roundtrip [OF _ _ e1 no1 e6' no2] u
    have A: "style (nodes (restore g ?st1) m) ''paint-order'' = style (nodes st m) ''paint-order''"
      "orEmpty (attrs (nodes (restore g ?st1) m) ''stroke'') = orEmpty (attrs (nodes st m) ''stroke'')"
      "attrs (nodes st m) ''stroke'' \<noteq> Some [] \<longrightarrow>
         attrs (nodes (restore g ?st1) m) ''stroke'' = attrs (nodes st m) ''stroke''"
      "orEmpty (attrs (nodes (restore g ?st1) m) ''stroke-width'')
         = orEmpty (attrs (nodes st m) ''stroke-width'')"
      "attrs (nodes st m) ''stroke-width'' \<noteq> Some [] \<longrightarrow>
         attrs (nodes (restore g ?st1) m) ''stroke-width'' = attrs (nodes st m) ''stroke-width''"
      "''shiny-outlined'' \<notin> classes (nodes (restore g ?st1) m)"
      by simp_all
    from focus_roundtrip [OF _ _ nf1 f1 nf2 f2] u
    have B: "attrs (nodes (restore g ?st1) m) ''tabindex'' = attrs (nodes st m) ''tabindex''"
      "''shiny-focusable'' \<notin> classes (nodes (restore g ?st1) m)"
      by simp_all
    have any: "anyPass (nodes st m) (nodes (restore g ?st1) m)"
      using any1 any2 by (rule frame_trans)
    have C: "style (nodes (restore g ?st1) m) ''filter'' = style (nodes st m) ''filter''"
      using any by (simp add: frame_def)
    have "(c \<in> classes (nodes (restore g ?st1) m)) = (c \<in> classes (nodes st m))" for c
    proof (cases "c \<in> {''shiny-outlined'', ''shiny-highlightable'', ''shiny-focusable''}")
      case True
      then show ?thesis
        using A(6) B(2) hl u by auto
    next
      case False
      then show ?thesis
        using any by (simp add: frame_def)
    qed
    then have D: "classes (nodes (restore g ?st1) m) = classes (nodes st m)"
      by blast
    show ?thesis
      unfolding restoredTo_def using A B C D by blast
  qed
qed

lemma img_roundtrip:
  assumes clean: "pristine g st"
    and tag: "toLowerCase (tag (nodes st (idOf g))) \<noteq> ''svg''"
  shows "restoredTo (nodes st m) (nodes (restore g (enhanceImgSVG g s st)) m)"
proof -
  have "''shiny-enhanced-img'' \<notin> classes (nodes st (idOf g))"
    using clean untouchedD [of "nodes st (idOf g)"] by (simp add: pristine_def)
  moreover have "enhancedElements st (idOf g) = None"
    using clean by (simp add: pristine_def)
  ultimately show ?thesis
    using tag
    by (simp add: restore_def enhanceImgSVG_def ensureStored_def Let_def restoredTo_def)
qed

lemma restore_absent: "enhancedElements st (idOf g) = None \<Longrightarrow> restore g st = st"
  by (simp add: restore_def)

section \<open>What the detector does\<close>

subsection \<open>Steps that report nothing, and steps that report\<close>

lemma quiet_refl [simp]: "quiet w w"
  by (simp add: quiet_def)

lemma quiet_trans: "quiet a b \<Longrightarrow> quiet b c \<Longrightarrow> quiet a c"
  by (simp add: quiet_def)

lemma svgOnly_refl [simp]: "svgOnly w w"
  by (simp add: svgOnly_def)

lemma svgOnly_trans:
  assumes "svgOnly a b" and "svgOnly b c"
  shows "svgOnly a c"
proof -
  from assms(1) obtain n1 where 1: "elementData b = elementData a" "calls b = calls a @ n1"
    "\<forall>y\<in>set n1. toLowerCase (tag (elementData a (element (snd y)))) = ''svg''"
    unfolding svgOnly_def by blast
  from assms(2) obtain n2 where 2: "elementData c = elementData b" "calls c = calls b @ n2"
    "\<forall>y\<in>set n2. toLowerCase (tag (elementData b (element (snd y)))) = ''svg''"
    unfolding svgOnly_def by blast
  have "calls c = calls a @ (n1 @ n2)"
    using 1 2 by simp
  moreover have "\<forall>y\<in>set (n1 @ n2). toLowerCase (tag (elementData a (element (snd y)))) = ''svg''"
    using 1 2 by auto
  ultimately show ?thesis
    unfolding svgOnly_def using 1(1) 2(1) by metis
qed

lemma fresh_refl [simp]: "fresh w w"
  by (simp add: fresh_def)

lemma fresh_trans:
  assumes "fresh a b" and "fresh b c"
  shows "fresh a c"
proof -
  from assms(1) obtain n1 where 1: "detectedSVGs a \<subseteq> detectedSVGs b" "calls b = calls a @ n1"
    "\<forall>y\<in>set n1. element (snd y) \<notin> detectedSVGs a \<and> element (snd y) \<in> detectedSVGs b"
    unfolding fresh_def by blast
  from assms(2) obtain n2 where 2: "detectedSVGs b \<subseteq> detectedSVGs c" "calls c = calls b @ n2"
    "\<forall>y\<in>set n2. element (snd y) \<notin> detectedSVGs b \<and> element (snd y) \<in> detectedSVGs c"
    unfolding fresh_def by blast
  have "calls c = calls a @ (n1 @ n2)"
    using 1 2 by simp
  moreover have "\<forall>y\<in>set (n1 @ n2).
      element (snd y) \<notin> detectedSVGs a \<and> element (snd y) \<in> detectedSVGs c"
    using 1 2 by auto
  moreover have "detectedSVGs a \<subseteq> detectedSVGs c"
    using 1 2 by blast
  ultimately show ?thesis
    unfolding fresh_def by blast
qed

lemma quiet_svgOnly: "quiet w w' \<Longrightarrow> svgOnly w w'"
  by (simp add: quiet_def svgOnly_def)

lemma quiet_fresh: "quiet w w' \<Longrightarrow> fresh w w'"
  by (simp add: quiet_def fresh_def)

lemma fold_rel:
  assumes "\<And>w. R w w" and "\<And>a b c. R a b \<Longrightarrow> R b c \<Longrightarrow> R a c" and "\<And>x w. R w (f x w)"
  shows "R w (fold f xs w)"
proof (induction xs arbitrary: w)
  case Nil
  show ?case by (simp add: assms(1))
next
  case (Cons x xs)
  have "R w (f x w)" by (rule assms(3))
  moreover have "R (f x w) (fold f xs (f x w))" by (rule Cons.IH)
  ultimately show ?case
    by (simp add: assms(2))
qed

lemma quiet_observe [simp]: "quiet w (observe ob tg w)"
  by (simp add: quiet_def observe_def)

lemma quiet_disconnect [simp]: "quiet w (disconnect ob w)"
  by (simp add: quiet_def disconnect_def)

lemma quiet_newObserver [simp]: "quiet w (snd (newObserver h w))"
  by (simp add: quiet_def newObserver_def Let_def)

lemma quiet_observeLottieContainer [simp]: "quiet w (observeLottieContainer c w)"
  by (simp add: quiet_def observeLottieContainer_def observe_def newObserver_def Let_def)

lemma quiet_observeShadowRoot [simp]: "quiet w (observeShadowRoot h w)"
  by (simp add: quiet_def observeShadowRoot_def observe_def newObserver_def Let_def)

lemma quiet_fold:
  "(\<And>x w. quiet w (f x w)) \<Longrightarrow> quiet w (fold f xs w)"
  by (rule fold_rel [where R = quiet]) (auto intro: quiet_trans)

lemma quiet_stop [simp]: "quiet w (stop w)"
  by (simp add: quiet_def stop_def disconnect_def Let_def split: option.splits)

lemma fresh_registerSVG [simp]: "fresh w (registerSVG i w)"
  by (auto simp: fresh_def registerSVG_def Let_def split: option.splits)

lemma svgOnly_registerSVG:
  "toLowerCase (tag (elementData w (element i))) = ''svg'' \<Longrightarrow> svgOnly w (registerSVG i w)"
  by (auto simp: svgOnly_def registerSVG_def Let_def split: option.splits)


lemma quiet_lottieOfPlayer: "quiet (snd acc) (snd (lottieOfPlayer player acc))"
  by (simp add: lottieOfPlayer_def split: option.splits)

lemma quiet_fold_lottieOfPlayer: "quiet (snd acc) (snd (fold lottieOfPlayer ps acc))"
proof (induction ps arbitrary: acc)
  case Nil
  show ?case by simp
next
  case (Cons p ps)
  have "quiet (snd acc) (snd (lottieOfPlayer p acc))"
    by (rule quiet_lottieOfPlayer)
  moreover have "quiet (snd (lottieOfPlayer p acc)) (snd (fold lottieOfPlayer ps (lottieOfPlayer p acc)))"
    by (rule Cons.IH)
  ultimately show ?case
    by (simp add: quiet_trans)
qed

lemma quiet_detectLottieContainers: "quiet w (snd (detectLottieContainers w))"
  using quiet_fold_lottieOfPlayer
    [of "(fold (lottieOfContainer w) (querySelectorAllDeep lottieClassSel w) [], w)"]
  by (simp add: detectLottieContainers_def Let_def split_def)

lemma quiet_detectExisting: "quiet w (snd (detectExisting w))"
  using quiet_detectLottieContainers [of w]
  by (simp add: detectExisting_def Let_def split_def)

lemma quiet_observeDynamicContent: "quiet w (observeDynamicContent w)"
proof -
  let ?w3 = "observe (fst (newObserver DynamicContent w))
      (ElementT (ident (page ((snd (newObserver DynamicContent w))
          \<lparr>observer := Some (fst (newObserver DynamicContent w))\<rparr>))))
      ((snd (newObserver DynamicContent w))\<lparr>observer := Some (fst (newObserver DynamicContent w))\<rparr>)"
  have "quiet w ?w3"
    by (simp add: quiet_def observe_def newObserver_def Let_def)
  moreover have "quiet ?w3 (observeExistingShadowRoots ?w3)"
    unfolding observeExistingShadowRoots_def by (rule quiet_fold) (simp add: split_def)
  ultimately show ?thesis
    unfolding observeDynamicContent_def Let_def split_def by (rule quiet_trans)
qed

lemma fresh_start: "fresh w (start callback w)"
proof -
  let ?w0 = "w\<lparr>onSVGDetected := Some callback\<rparr>"
  let ?w1 = "snd (detectExisting ?w0)"
  let ?w2 = "fold registerSVG (fst (detectExisting ?w0)) ?w1"
  have "quiet ?w0 ?w1"
    by (rule quiet_detectExisting)
  then have "fresh w ?w1"
    by (simp add: quiet_def fresh_def)
  moreover have "fresh ?w1 ?w2"
    by (rule fold_rel [where R = fresh]) (auto intro: fresh_trans)
  moreover have "fresh ?w2 (observeDynamicContent ?w2)"
    by (rule quiet_fresh) (rule quiet_observeDynamicContent)
  ultimately show ?thesis
    unfolding start_def Let_def split_def by (blast intro: fresh_trans)
qed

lemma fresh_newCalls:
  "fresh w w' \<Longrightarrow> y \<in> set (newCalls w w') \<Longrightarrow>
     element (snd y) \<notin> detectedSVGs w \<and> element (snd y) \<in> detectedSVGs w'"
  by (auto simp: fresh_def newCalls_def)

lemma lower_svg: "toLowerCase ''svg'' = ''svg''"
  by code_simp

lemma svgSel_lower: "svgSel e \<Longrightarrow> toLowerCase (tag e) = ''svg''"
  by (simp add: svgSel_def lower_svg)

lemma select_sel: "t \<in> set (select sel forest w) \<Longrightarrow> sel (elementData w (ident t))"
  by (simp add: select_def)

lemma querySelector_sel: "querySelector sel forest w = Some t \<Longrightarrow> sel (elementData w (ident t))"
  by (auto simp: querySelector_def find_Some_iff)

lemma playerSvg_sel: "playerSvg c w = Some svg \<Longrightarrow> svgSel (elementData w (ident svg))"
  by (auto simp: playerSvg_def split: option.splits dest: querySelector_sel)

lemma svgOnly_registerAll:
  "\<forall>t\<in>set ts. toLowerCase (tag (elementData w (ident t))) = ''svg'' \<Longrightarrow>
   svgOnly w (registerAll k ts w)"
proof (induction ts arbitrary: w)
  case Nil
  show ?case by (simp add: registerAll_def)
next
  case (Cons t ts)
  let ?w = "registerSVG \<lparr>type = k, element = ident t\<rparr> w"
  have 1: "svgOnly w ?w"
    using Cons.prems by (intro svgOnly_registerSVG) simp
  then have "elementData ?w = elementData w"
    by (simp add: svgOnly_def)
  with Cons.prems have "\<forall>t\<in>set ts. toLowerCase (tag (elementData ?w (ident t))) = ''svg''"
    by simp
  then have "svgOnly ?w (registerAll k ts ?w)"
    by (rule Cons.IH)
  with 1 show ?case
    by (simp add: registerAll_def svgOnly_trans)
qed

lemma svgOnly_register_selected: "svgOnly w (registerAll k (select svgSel forest w) w)"
  by (rule svgOnly_registerAll) (auto dest: select_sel svgSel_lower)

lemma svgOnly_checkShadowHost: "svgOnly w (checkShadowHost el w)"
proof (cases "shadowRoot el")
  case None
  then show ?thesis by (simp add: checkShadowHost_def)
next
  case (Some sf)
  let ?w1 = "observeShadowRoot (ident el) w"
  have "svgOnly w ?w1"
    by (rule quiet_svgOnly) simp
  moreover have "svgOnly ?w1 (registerAll Inline (select svgSel sf ?w1) ?w1)"
    by (rule svgOnly_register_selected)
  ultimately show ?thesis
    using Some by (simp add: checkShadowHost_def Let_def svgOnly_trans)
qed

lemma svgOnly_fold:
  "(\<And>x w. svgOnly w (f x w)) \<Longrightarrow> svgOnly w (fold f xs w)"
  by (rule fold_rel [where R = svgOnly]) (auto intro: svgOnly_trans)

lemma svgOnly_checkNodeForSVG: "svgOnly w (checkNodeForSVG nd w)"
proof -
  let ?name = "toLowerCase (tag (elementData w (ident nd)))"
  let ?w1 = "registerAll Inline (select svgSel (childNodes nd) w) w"
  let ?w2 = "fold observeLottieContainer (select playerSel (childNodes nd) ?w1) ?w1"
  let ?w3 = "fold checkShadowHost (select (\<lambda>e. True) (childNodes nd) ?w2) ?w2"
  have a: "svgOnly w (registerSVG \<lparr>type = Inline, element = ident nd\<rparr> w)" if "?name = ''svg''"
    using that by (intro svgOnly_registerSVG) simp
  have b: "svgOnly w (observeLottieContainer nd w)"
    by (rule quiet_svgOnly) simp
  have "svgOnly w ?w1"
    by (rule svgOnly_register_selected)
  moreover have "svgOnly ?w1 ?w2"
    by (rule svgOnly_fold) (simp add: quiet_svgOnly)
  moreover have "svgOnly ?w2 ?w3"
    by (rule svgOnly_fold) (rule svgOnly_checkShadowHost)
  moreover have "svgOnly ?w3 (checkShadowHost nd ?w3)"
    by (rule svgOnly_checkShadowHost)
  ultimately have c: "svgOnly w (checkShadowHost nd ?w3)"
    by (blast intro: svgOnly_trans)
  show ?thesis
    unfolding checkNodeForSVG_def Let_def using a b c by simp
qed

lemma svgOnly_contentCallback: "svgOnly w (contentCallback added w)"
  unfolding contentCallback_def by (rule svgOnly_fold) (rule svgOnly_checkNodeForSVG)

lemma svgOnly_lottieCallback: "svgOnly w (lottieCallback ob c w)"
proof (cases "elementById c w")
  case None
  then show ?thesis by (simp add: lottieCallback_def)
next
  case (Some t)
  show ?thesis
  proof (cases "playerSvg t w")
    case None
    with Some show ?thesis by (simp add: lottieCallback_def)
  next
    case (Some svg)
    let ?w1 = "registerSVG \<lparr>type = Lottie, element = ident svg\<rparr> w"
    have "svgOnly w ?w1"
      using playerSvg_sel [OF Some] by (intro svgOnly_registerSVG) (simp add: svgSel_lower)
    moreover have "svgOnly ?w1 (disconnect ob ?w1)"
      by (rule quiet_svgOnly) simp
    ultimately show ?thesis
      using Some \<open>elementById c w = Some t\<close> by (simp add: lottieCallback_def svgOnly_trans)
  qed
qed

lemma svgOnly_runCallback: "svgOnly w (runCallback added obs w)"
  by (cases "snd obs")
     (simp_all add: runCallback_def svgOnly_contentCallback svgOnly_lottieCallback)

lemma svgOnly_insertNode: "svgOnly w (insertNode parent new w)"
proof -
  let ?w1 = "w\<lparr>page := appendTo parent new (page w)\<rparr>"
  have "svgOnly w ?w1"
    by (simp add: svgOnly_def)
  moreover have "svgOnly ?w1 (fold (runCallback [new]) (notified w parent) ?w1)"
    by (rule svgOnly_fold) (rule svgOnly_runCallback)
  ultimately show ?thesis
    unfolding insertNode_def Let_def by (rule svgOnly_trans)
qed

lemma not_svg: "toLowerCase ''img'' \<noteq> ''svg''" "toLowerCase ''object'' \<noteq> ''svg''"
  "toLowerCase ''embed'' \<noteq> ''svg''"
  by code_simp+

lemma fresh_fold:
  "(\<And>x w. fresh w (f x w)) \<Longrightarrow> fresh w (fold f xs w)"
  by (rule fold_rel [where R = fresh]) (auto intro: fresh_trans)

lemma fresh_registerAll: "fresh w (registerAll k ts w)"
  unfolding registerAll_def by (rule fresh_fold) simp

lemma fresh_checkShadowHost: "fresh w (checkShadowHost el w)"
proof (cases "shadowRoot el")
  case None
  then show ?thesis by (simp add: checkShadowHost_def)
next
  case (Some sf)
  let ?w1 = "observeShadowRoot (ident el) w"
  have "fresh w ?w1"
    by (rule quiet_fresh) simp
  moreover have "fresh ?w1 (registerAll Inline (select svgSel sf ?w1) ?w1)"
    by (rule fresh_registerAll)
  ultimately show ?thesis
    using Some by (simp add: checkShadowHost_def Let_def fresh_trans)
qed

lemma fresh_checkNodeForSVG: "fresh w (checkNodeForSVG nd w)"
proof -
  let ?w1 = "registerAll Inline (select svgSel (childNodes nd) w) w"
  let ?w2 = "fold observeLottieContainer (select playerSel (childNodes nd) ?w1) ?w1"
  let ?w3 = "fold checkShadowHost (select (\<lambda>e. True) (childNodes nd) ?w2) ?w2"
  have b: "fresh w (observeLottieContainer nd w)"
    by (rule quiet_fresh) simp
  have "fresh w ?w1"
    by (rule fresh_registerAll)
  moreover have "fresh ?w1 ?w2"
    by (rule fresh_fold) (simp add: quiet_fresh)
  moreover have "fresh ?w2 ?w3"
    by (rule fresh_fold) (rule fresh_checkShadowHost)
  moreover have "fresh ?w3 (checkShadowHost nd ?w3)"
    by (rule fresh_checkShadowHost)
  ultimately have c: "fresh w (checkShadowHost nd ?w3)"
    by (blast intro: fresh_trans)
  show ?thesis
    unfolding checkNodeForSVG_def Let_def using b c by simp
qed

lemma fresh_contentCallback: "fresh w (contentCallback added w)"
  unfolding contentCallback_def by (rule fresh_fold) (rule fresh_checkNodeForSVG)

lemma fresh_lottieCallback: "fresh w (lottieCallback ob c w)"
proof (cases "elementById c w")
  case None
  then show ?thesis by (simp add: lottieCallback_def)
next
  case (Some t)
  show ?thesis
  proof (cases "playerSvg t w")
    case None
    with Some show ?thesis by (simp add: lottieCallback_def)
  next
    case (Some svg)
    let ?w1 = "registerSVG \<lparr>type = Lottie, element = ident svg\<rparr> w"
    have "fresh w ?w1"
      by (rule fresh_registerSVG)
    moreover have "fresh ?w1 (disconnect ob ?w1)"
      by (rule quiet_fresh) simp
    ultimately have "fresh w (disconnect ob ?w1)"
      by (rule fresh_trans)
    then show ?thesis
      using Some \<open>elementById c w = Some t\<close> by (simp add: lottieCallback_def)
  qed
qed

lemma fresh_runCallback: "fresh w (runCallback added obs w)"
  by (cases "snd obs")
     (simp_all add: runCallback_def fresh_contentCallback fresh_lottieCallback)

lemma fresh_insertNode: "fresh w (insertNode parent new w)"
proof -
  let ?w1 = "w\<lparr>page := appendTo parent new (page w)\<rparr>"
  have "fresh w ?w1"
    by (simp add: fresh_def)
  moreover have "fresh ?w1 (fold (runCallback [new]) (notified w parent) ?w1)"
    by (rule fresh_fold) (rule fresh_runCallback)
  ultimately show ?thesis
    unfolding insertNode_def Let_def by (rule fresh_trans)
qed

lemma fresh_timeout: "fresh w (timeout ob w)"
  by (simp add: fresh_def timeout_def disconnect_def)

lemma fresh_happen: "fresh w (happen ev w)"
  by (cases ev) (simp_all add: happen_def fresh_insertNode fresh_timeout)

lemma fresh_run: "fresh w (run evs w)"
  unfolding run_def by (rule fresh_fold) (rule fresh_happen)

lemma fresh_session: "fresh w (run evs (start callback w))"
  using fresh_start fresh_run by (rule fresh_trans)

lemma fresh_stop: "fresh w (stop w)"
  by (rule quiet_fresh) simp

lemma newCalls_later:
  assumes "fresh a b" and "fresh b c" and "x \<in> set (newCalls a b)" and "y \<in> set (newCalls b c)"
  shows "element (snd y) \<noteq> element (snd x)"
  using fresh_newCalls [OF assms(1) assms(3)] fresh_newCalls [OF assms(2) assms(4)] by metis

subsection \<open>A disabled snapshot\<close>

text \<open>
  C6. With \<open>settings.enabled\<close> false, \<open>enhance\<close> returns the state that
  \<open>restore\<close> of the graphic's element gives, whatever the kind of the graphic, and
  nothing else is done; for an element without a record that is the state it started from.
\<close>

theorem enhance_disabled_is_restore:
  "\<not> enabled s \<Longrightarrow>
     enhance svgInfo s st = Inr (restore (element svgInfo) st) \<and>
     (enhancedElements st (idOf (element svgInfo)) = None \<longrightarrow> enhance svgInfo s st = Inr st)"
  by (simp add: enhance_def restore_def)

theorem enhance_disabled_is_restore_witness:
  "\<not> enabled (defaultSettings\<lparr>enabled := False\<rparr>) \<and>
   enhance \<lparr>type = Inline, element = iconSvg\<rparr> (defaultSettings\<lparr>enabled := False\<rparr>)
       (enhanceInlineSVG iconSvg defaultSettings iconPage)
     = Inr (restore iconSvg (enhanceInlineSVG iconSvg defaultSettings iconPage)) \<and>
   enhancedElements iconPage (idOf iconSvg) = None \<and>
   enhance \<lparr>type = Inline, element = iconSvg\<rparr> (defaultSettings\<lparr>enabled := False\<rparr>) iconPage
     = Inr iconPage"
proof -
  let ?info = "\<lparr>type = Inline, element = iconSvg\<rparr>"
  let ?off = "defaultSettings\<lparr>enabled := False\<rparr>"
  have off: "\<not> enabled ?off"
    by simp
  have none: "enhancedElements iconPage (idOf iconSvg) = None"
    by (simp add: iconPage_def)
  have "enhance ?info ?off (enhanceInlineSVG iconSvg defaultSettings iconPage)
          = Inr (restore iconSvg (enhanceInlineSVG iconSvg defaultSettings iconPage))"
    using enhance_disabled_is_restore
      [OF off, of ?info "enhanceInlineSVG iconSvg defaultSettings iconPage", THEN conjunct1]
    by simp
  moreover have "enhance ?info ?off iconPage = Inr iconPage"
    using enhance_disabled_is_restore [OF off, of ?info iconPage, THEN conjunct2] none
    by simp
  ultimately show ?thesis
    using off none by blast
qed

subsection \<open>Embedded graphics never throw\<close>

text \<open>
  C9. \<open>enhanceEmbeddedSVG\<close> always returns a state and never an exception, and so
  does \<open>enhance\<close> on an object or embed graphic, which with an enabled snapshot is
  \<open>enhanceEmbeddedSVG\<close>. When \<open>contentDocument\<close>, or \<open>getSVGDocument\<close> after a
  null \<open>contentDocument\<close>, gives a document \<open>d\<close> and \<open>svg\<close> is the first element
  of \<open>d\<close> named svg, the state is that of the inline treatment of \<open>svg\<close>. When the
  document has no element named svg, when one of the two accessors throws, or when there is
  no document, the state is that of the filter-only treatment of the embedding element.
\<close>

theorem embedded_never_throws:
  "(\<exists>st'. enhanceEmbeddedSVG el s st = Inr st') \<and>
   (\<exists>st'. enhance \<lparr>type = Object, element = el\<rparr> s st = Inr st') \<and>
   (\<exists>st'. enhance \<lparr>type = Embed, element = el\<rparr> s st = Inr st') \<and>
   (enabled s \<longrightarrow>
      enhance \<lparr>type = Object, element = el\<rparr> s st = enhanceEmbeddedSVG el s st \<and>
      enhance \<lparr>type = Embed, element = el\<rparr> s st = enhanceEmbeddedSVG el s st) \<and>
   ((contentDocument (nodes st (idOf el)) = Inr (Some d) \<or>
     contentDocument (nodes st (idOf el)) = Inr None \<and>
       getSVGDocument (nodes st (idOf el)) = Some (Inr (Some d))) \<and>
    subnodes [] d = before @ svg # rest \<and>
    list_all (\<lambda>x. tag (nodes st (idOf x)) \<noteq> ''svg'') before \<and>
    tag (nodes st (idOf svg)) = ''svg'' \<longrightarrow>
      enhanceEmbeddedSVG el s st = Inr (enhanceInlineSVG svg s st)) \<and>
   ((contentDocument (nodes st (idOf el)) = Inr (Some d) \<or>
     contentDocument (nodes st (idOf el)) = Inr None \<and>
       getSVGDocument (nodes st (idOf el)) = Some (Inr (Some d))) \<and>
    list_all (\<lambda>x. tag (nodes st (idOf x)) \<noteq> ''svg'') (subnodes [] d) \<longrightarrow>
      enhanceEmbeddedSVG el s st = Inr (enhanceImgSVG el s st)) \<and>
   (contentDocument (nodes st (idOf el)) = Inl thrown \<or>
    contentDocument (nodes st (idOf el)) = Inr None \<and>
      getSVGDocument (nodes st (idOf el)) = Some (Inl thrown) \<longrightarrow>
      enhanceEmbeddedSVG el s st = Inr (enhanceImgSVG el s st)) \<and>
   (contentDocument (nodes st (idOf el)) = Inr None \<and>
    (getSVGDocument (nodes st (idOf el)) = None \<or>
     getSVGDocument (nodes st (idOf el)) = Some (Inr None)) \<longrightarrow>
      enhanceEmbeddedSVG el s st = Inr (enhanceImgSVG el s st))"
proof -
  note found = documentSvg_first [of d before svg rest st]
  note none = documentSvg_none [of st d]
  show ?thesis
    using none found
    by (auto simp: enhanceEmbeddedSVG_def embeddedAttempt_def embeddedRoot_def svgDocument_def
        enhance_def bindE_def tryCatch_def split: sum.splits option.splits)
qed

theorem embedded_never_throws_witness:
  "contentDocument (nodes logoPage (idOf logoObject)) = Inr (Some (self logoSvg)) \<and>
   subnodes [] (self logoSvg) = [] @ logoSvg # [\<lparr>self = Node 7 [] None, ancestors = [6]\<rparr>] \<and>
   list_all (\<lambda>x. tag (nodes logoPage (idOf x)) \<noteq> ''svg'') [] \<and>
   tag (nodes logoPage (idOf logoSvg)) = ''svg'' \<and>
   enhanceEmbeddedSVG logoObject defaultSettings logoPage
     = Inr (enhanceInlineSVG logoSvg defaultSettings logoPage) \<and>
   ''shiny-enhanced'' \<in> classes (nodes (enhanceInlineSVG logoSvg defaultSettings logoPage) 6) \<and>
   enabled defaultSettings \<and>
   enhance \<lparr>type = Object, element = logoObject\<rparr> defaultSettings logoPage
     = Inr (enhanceInlineSVG logoSvg defaultSettings logoPage) \<and>
   contentDocument (nodes blockedPage (idOf logoObject)) = Inl SecurityError \<and>
   enhanceEmbeddedSVG logoObject defaultSettings blockedPage
     = Inr (enhanceImgSVG logoObject defaultSettings blockedPage) \<and>
   ''shiny-enhanced-img'' \<in> classes (nodes (enhanceImgSVG logoObject defaultSettings blockedPage) 5) \<and>
   contentDocument (nodes rootlessPage (idOf logoObject)) = Inr (Some (Node 8 [] None)) \<and>
   list_all (\<lambda>x. tag (nodes rootlessPage (idOf x)) \<noteq> ''svg'') (subnodes [] (Node 8 [] None)) \<and>
   enhanceEmbeddedSVG logoObject defaultSettings rootlessPage
     = Inr (enhanceImgSVG logoObject defaultSettings rootlessPage) \<and>
   contentDocument (nodes plainPage (idOf logoObject)) = Inr None \<and>
   getSVGDocument (nodes plainPage (idOf logoObject)) = None \<and>
   enhanceEmbeddedSVG logoObject defaultSettings plainPage
     = Inr (enhanceImgSVG logoObject defaultSettings plainPage)"
proof -
  have readable: "contentDocument (nodes logoPage (idOf logoObject)) = Inr (Some (self logoSvg))"
    "subnodes [] (self logoSvg) = [] @ logoSvg # [\<lparr>self = Node 7 [] None, ancestors = [6]\<rparr>]"
    "list_all (\<lambda>x. tag (nodes logoPage (idOf x)) \<noteq> ''svg'') []"
    "tag (nodes logoPage (idOf logoSvg)) = ''svg''"
    by code_simp+
  have marks: "''shiny-enhanced'' \<in> classes (nodes (enhanceInlineSVG logoSvg defaultSettings logoPage) 6)"
    "''shiny-enhanced-img'' \<in> classes (nodes (enhanceImgSVG logoObject defaultSettings blockedPage) 5)"
    by code_simp+
  have on: "enabled defaultSettings"
    by (simp add: defaultSettings_def)
  have blocked: "contentDocument (nodes blockedPage (idOf logoObject)) = Inl SecurityError"
    by code_simp
  have rootless: "contentDocument (nodes rootlessPage (idOf logoObject)) = Inr (Some (Node 8 [] None))"
    "list_all (\<lambda>x. tag (nodes rootlessPage (idOf x)) \<noteq> ''svg'') (subnodes [] (Node 8 [] None))"
    by code_simp+
  have plain: "contentDocument (nodes plainPage (idOf logoObject)) = Inr None"
    "getSVGDocument (nodes plainPage (idOf logoObject)) = None"
    by code_simp+
  have 1: "enhanceEmbeddedSVG logoObject defaultSettings logoPage
     = Inr (enhanceInlineSVG logoSvg defaultSettings logoPage)"
    using embedded_never_throws [of logoObject defaultSettings logoPage "self logoSvg" "[]" logoSvg
        "[\<lparr>self = Node 7 [] None, ancestors = [6]\<rparr>]"]
      readable by blast
  have 2: "enhance \<lparr>type = Object, element = logoObject\<rparr> defaultSettings logoPage
     = Inr (enhanceInlineSVG logoSvg defaultSettings logoPage)"
    using embedded_never_throws [of logoObject defaultSettings logoPage] on 1 by metis
  have 3: "enhanceEmbeddedSVG logoObject defaultSettings blockedPage
     = Inr (enhanceImgSVG logoObject defaultSettings blockedPage)"
    using embedded_never_throws [of logoObject defaultSettings blockedPage _ _ _ _ SecurityError]
      blocked by blast
  have 4: "enhanceEmbeddedSVG logoObject defaultSettings rootlessPage
     = Inr (enhanceImgSVG logoObject defaultSettings rootlessPage)"
    using embedded_never_throws [of logoObject defaultSettings rootlessPage "Node 8 [] None"]
      rootless by blast
  have 5: "enhanceEmbeddedSVG logoObject defaultSettings plainPage
     = Inr (enhanceImgSVG logoObject defaultSettings plainPage)"
    using embedded_never_throws [of logoObject defaultSettings plainPage] plain by blast
  show ?thesis
    using readable marks on blocked rootless plain 1 2 3 4 5 by (intro conjI)
qed

subsection \<open>Enhancing twice\<close>

text \<open>
  C3. On the icon page the path has no stroke. The first \<open>enhance\<close> records the
  empty string as its original stroke; the second one, with the same settings, finds this
  record empty, records the outline colour and width as the originals and pushes the path
  to the list a second time. The attributes of the path after two calls are not those
  after one call, and a later \<open>restore\<close> leaves the outline colour on the path
  instead of removing the stroke.
\<close>

theorem enhance_twice_differs:
  "(case enhance \<lparr>type = Inline, element = iconSvg\<rparr> defaultSettings iconPage of
      Inl thrown \<Rightarrow> False
    | Inr once \<Rightarrow>
        (case enhance \<lparr>type = Inline, element = iconSvg\<rparr> defaultSettings once of
           Inl thrown \<Rightarrow> False
         | Inr twice \<Rightarrow>
             attrs (nodes once 2) ''data-shiny-original-stroke'' = Some [] \<and>
             attrs (nodes twice 2) ''data-shiny-original-stroke'' = Some ''#000000'' \<and>
             attrs (nodes once 2) ''data-shiny-original-stroke-width'' = Some [] \<and>
             attrs (nodes twice 2) ''data-shiny-original-stroke-width'' = Some ''2'' \<and>
             attrs (nodes (restore iconSvg once) 2) ''stroke'' = None \<and>
             attrs (nodes (restore iconSvg twice) 2) ''stroke'' = Some ''#000000'' \<and>
             map idOf (modifiedShapes (storedOf 1 once)) = [2] \<and>
             map idOf (modifiedShapes (storedOf 1 twice)) = [2, 2]))"
  by code_simp

subsection \<open>Capturing the originals\<close>

text \<open>
  The sentinel does not tell an absent attribute from an empty one: the rect of the logo has
  \<open>stroke=""\<close>, the path of the icon has no stroke, and both get the empty string as
  their captured original.
\<close>

theorem sentinel_conflates_absent_and_empty:
  "attrs (nodes logoPage 7) ''stroke'' = Some [] \<and>
   attrs (nodes (enhanceInlineSVG logoSvg defaultSettings logoPage) 7)
     ''data-shiny-original-stroke'' = Some [] \<and>
   attrs (nodes iconPage 2) ''stroke'' = None \<and>
   attrs (nodes (enhanceInlineSVG iconSvg defaultSettings iconPage) 2)
     ''data-shiny-original-stroke'' = Some []"
  by code_simp

text \<open>
  C4, as amended. Let \<open>d\<close> be a shape below \<open>svg\<close> that is not inside a clipPath, mask
  or defs. If \<open>d\<close> carries a non-empty captured original stroke, \<open>enhanceInlineSVG\<close>
  leaves its three captured originals as they are, whatever the settings. If it carries no
  captured original stroke at all and outlines are enabled, the call captures the stroke and
  stroke-width attributes, an absent attribute as the empty string, and the inline paint
  order; so a shape without a stroke and a shape with an empty stroke get the same record.
\<close>

theorem originals_captured_then_kept:
  assumes dist: "distinct (map idOf (descendantNodes svg))"
    and d: "d \<in> set (descendantNodes svg)"
    and shape: "isShape (nodes st (idOf d))"
    and elig: "\<not> skipped d st"
  shows
    "(truthy (attrs (nodes st (idOf d)) ''data-shiny-original-stroke'') \<longrightarrow>
        attrs (nodes (enhanceInlineSVG svg s st) (idOf d)) ''data-shiny-original-stroke''
          = attrs (nodes st (idOf d)) ''data-shiny-original-stroke'' \<and>
        attrs (nodes (enhanceInlineSVG svg s st) (idOf d)) ''data-shiny-original-stroke-width''
          = attrs (nodes st (idOf d)) ''data-shiny-original-stroke-width'' \<and>
        attrs (nodes (enhanceInlineSVG svg s st) (idOf d)) ''data-shiny-original-paint-order''
          = attrs (nodes st (idOf d)) ''data-shiny-original-paint-order'') \<and>
     (attrs (nodes st (idOf d)) ''data-shiny-original-stroke'' = None \<and> outlineEnabled s \<longrightarrow>
        attrs (nodes (enhanceInlineSVG svg s st) (idOf d)) ''data-shiny-original-stroke''
          = Some (orEmpty (attrs (nodes st (idOf d)) ''stroke'')) \<and>
        attrs (nodes (enhanceInlineSVG svg s st) (idOf d)) ''data-shiny-original-stroke-width''
          = Some (orEmpty (attrs (nodes st (idOf d)) ''stroke-width'')) \<and>
        attrs (nodes (enhanceInlineSVG svg s st) (idOf d)) ''data-shiny-original-paint-order''
          = Some (style (nodes st (idOf d)) ''paint-order'')) \<and>
     (attrs (nodes st (idOf d)) ''data-shiny-original-stroke'' = None \<and> outlineEnabled s \<and>
      (attrs (nodes st (idOf d)) ''stroke'' = None \<or> attrs (nodes st (idOf d)) ''stroke'' = Some [])
        \<longrightarrow>
        attrs (nodes (enhanceInlineSVG svg s st) (idOf d)) ''data-shiny-original-stroke'' = Some [])"
proof -
  let ?r = "\<lparr>originalFilter = style (nodes st (idOf svg)) ''filter'', modifiedShapes = []\<rparr>"
  let ?st0 = "ensureStored (idOf svg) ?r st"
  let ?st1 = "if outlineEnabled s then addOutlines svg s ?st0
              else removeOutlines (storedOf (idOf svg) ?st0) ?st0"
  let ?e = "nodes st (idOf d)"
  have view: "outlineView (nodes (enhanceInlineSVG svg s st) (idOf d)) = outlineView (nodes ?st1 (idOf d))"
    by (rule outlineView_enhanceInlineSVG)
  have on: "nodes (addOutlines svg s ?st0) (idOf d) = outlineElem s ?e"
    using d shape elig by (subst nodes_addOutlines [OF dist]) auto
  have off: "attrs (nodes (removeOutlines (storedOf (idOf svg) ?st0) ?st0) (idOf d)) k = attrs ?e k"
    if "k \<noteq> ''stroke''" "k \<noteq> ''stroke-width''" for k
    using that by (simp add: attrs_removeOutlines)
  show ?thesis
  proof (cases "outlineEnabled s")
    case True
    with viewD [OF view] on show ?thesis
      by (auto simp: originals_outlineElem truthy_def orEmpty_def)
  next
    case False
    with viewD [OF view] off show ?thesis
      by simp
  qed
qed

theorem originals_captured_then_kept_witness:
  "distinct (map idOf (descendantNodes iconSvg)) \<and>
   iconPath \<in> set (descendantNodes iconSvg) \<and>
   isShape (nodes iconPage (idOf iconPath)) \<and> \<not> skipped iconPath iconPage \<and>
   isShape (nodes capturedPage (idOf iconPath)) \<and> \<not> skipped iconPath capturedPage \<and>
   truthy (attrs (nodes capturedPage (idOf iconPath)) ''data-shiny-original-stroke'') \<and>
   attrs (nodes (enhanceInlineSVG iconSvg defaultSettings capturedPage) (idOf iconPath))
     ''data-shiny-original-stroke'' = Some ''blue'' \<and>
   attrs (nodes iconPage (idOf iconPath)) ''data-shiny-original-stroke'' = None \<and>
   outlineEnabled defaultSettings \<and>
   attrs (nodes iconPage (idOf iconPath)) ''stroke'' = None \<and>
   attrs (nodes (enhanceInlineSVG iconSvg defaultSettings iconPage) (idOf iconPath))
     ''data-shiny-original-stroke'' = Some []"
proof -
  have dist: "distinct (map idOf (descendantNodes iconSvg))"
    by code_simp
  have d: "iconPath \<in> set (descendantNodes iconSvg)"
    by code_simp
  have shape: "isShape (nodes iconPage (idOf iconPath))"
    by code_simp
  have elig: "\<not> skipped iconPath iconPage"
    by code_simp
  have shape': "isShape (nodes capturedPage (idOf iconPath))"
    by code_simp
  have elig': "\<not> skipped iconPath capturedPage"
    by code_simp
  have captured: "truthy (attrs (nodes capturedPage (idOf iconPath)) ''data-shiny-original-stroke'')"
    "attrs (nodes capturedPage (idOf iconPath)) ''data-shiny-original-stroke'' = Some ''blue''"
    by code_simp+
  have fresh: "attrs (nodes iconPage (idOf iconPath)) ''data-shiny-original-stroke'' = None"
    "outlineEnabled defaultSettings"
    "attrs (nodes iconPage (idOf iconPath)) ''stroke'' = None"
    by code_simp+
  from originals_captured_then_kept [OF dist d shape' elig', of defaultSettings] captured
  have "attrs (nodes (enhanceInlineSVG iconSvg defaultSettings capturedPage) (idOf iconPath))
     ''data-shiny-original-stroke'' = Some ''blue''"
    by simp
  moreover
  from originals_captured_then_kept [OF dist d shape elig, of defaultSettings] fresh
  have "attrs (nodes (enhanceInlineSVG iconSvg defaultSettings iconPage) (idOf iconPath))
     ''data-shiny-original-stroke'' = Some []"
    by blast
  ultimately show ?thesis
    using dist d shape elig shape' elig' captured(1) fresh by blast
qed

subsection \<open>Switching the outlines off\<close>

text \<open>
  The list of modified shapes is not cleared: after enhancing the icon with outlines and
  then without them, the record of the svg still lists the path.
\<close>

theorem modified_list_not_cleared:
  "map idOf (modifiedShapes (storedOf 1
     (enhanceInlineSVG iconSvg (defaultSettings\<lparr>outlineEnabled := False\<rparr>)
        (enhanceInlineSVG iconSvg defaultSettings iconPage)))) = [2]"
  by code_simp

text \<open>
  C5, as amended. When \<open>svg\<close> has a record and the snapshot has outlines disabled,
  \<open>enhanceInlineSVG\<close> gives every shape of the record's list its stroke and stroke-width
  back from the shape's captured originals (removing the attribute when the captured
  original is empty or missing) and its captured paint order, and takes the outline marker
  off the shape. The record of \<open>svg\<close>, and with it the list of modified shapes, stays
  as it was.
\<close>

theorem reenhance_without_outline:
  assumes rec: "enhancedElements st (idOf svg) = Some r"
    and off: "\<not> outlineEnabled s"
    and d: "d \<in> set (modifiedShapes r)"
  shows
    "attrs (nodes (enhanceInlineSVG svg s st) (idOf d)) ''stroke'' =
       (if truthy (attrs (nodes st (idOf d)) ''data-shiny-original-stroke'')
        then attrs (nodes st (idOf d)) ''data-shiny-original-stroke'' else None) \<and>
     attrs (nodes (enhanceInlineSVG svg s st) (idOf d)) ''stroke-width'' =
       (if truthy (attrs (nodes st (idOf d)) ''data-shiny-original-stroke-width'')
        then attrs (nodes st (idOf d)) ''data-shiny-original-stroke-width'' else None) \<and>
     style (nodes (enhanceInlineSVG svg s st) (idOf d)) ''paint-order'' =
       (case attrs (nodes st (idOf d)) ''data-shiny-original-paint-order'' of
          None \<Rightarrow> style (nodes st (idOf d)) ''paint-order'' | Some v \<Rightarrow> v) \<and>
     ''shiny-outlined'' \<notin> classes (nodes (enhanceInlineSVG svg s st) (idOf d)) \<and>
     enhancedElements (enhanceInlineSVG svg s st) (idOf svg) = Some r \<and>
     modifiedShapes (storedOf (idOf svg) (enhanceInlineSVG svg s st)) = modifiedShapes r"
proof -
  let ?r = "\<lparr>originalFilter = style (nodes st (idOf svg)) ''filter'', modifiedShapes = []\<rparr>"
  have st0: "ensureStored (idOf svg) ?r st = st"
    using rec by (rule ensureStored_present)
  have r: "storedOf (idOf svg) st = r"
    using rec by (simp add: storedOf_def)
  have "outlineView (nodes (enhanceInlineSVG svg s st) (idOf d))
          = outlineView (nodes (removeOutlines r st) (idOf d))"
    using off by (simp add: outlineView_enhanceInlineSVG st0 r)
  moreover have "nodes (removeOutlines r st) (idOf d) = restoreShape (nodes st (idOf d))"
    using d by (simp add: nodes_removeOutlines)
  moreover have "enhancedElements (enhanceInlineSVG svg s st) = enhancedElements st"
    using off by (simp add: enhanceInlineSVG_def Let_def st0)
  ultimately show ?thesis
    using viewD [of "nodes (enhanceInlineSVG svg s st) (idOf d)" "restoreShape (nodes st (idOf d))"]
      rec restoreShape_result [of "nodes st (idOf d)"]
    by (simp add: storedOf_def restoredStroke_def restoredWidth_def restoredPaintOrder_def)
qed

theorem reenhance_without_outline_witness:
  "enhancedElements (enhanceInlineSVG iconSvg defaultSettings iconPage) (idOf iconSvg)
     = Some \<lparr>originalFilter = [], modifiedShapes = [iconPath]\<rparr> \<and>
   \<not> outlineEnabled (defaultSettings\<lparr>outlineEnabled := False\<rparr>) \<and>
   iconPath \<in> set (modifiedShapes \<lparr>originalFilter = [], modifiedShapes = [iconPath]\<rparr>) \<and>
   attrs (nodes (enhanceInlineSVG iconSvg defaultSettings iconPage) (idOf iconPath)) ''stroke''
     = Some ''#000000'' \<and>
   attrs (nodes (enhanceInlineSVG iconSvg (defaultSettings\<lparr>outlineEnabled := False\<rparr>)
            (enhanceInlineSVG iconSvg defaultSettings iconPage)) (idOf iconPath)) ''stroke''
     = None \<and>
   ''shiny-outlined'' \<notin> classes (nodes (enhanceInlineSVG iconSvg
            (defaultSettings\<lparr>outlineEnabled := False\<rparr>)
            (enhanceInlineSVG iconSvg defaultSettings iconPage)) (idOf iconPath)) \<and>
   modifiedShapes (storedOf (idOf iconSvg) (enhanceInlineSVG iconSvg
            (defaultSettings\<lparr>outlineEnabled := False\<rparr>)
            (enhanceInlineSVG iconSvg defaultSettings iconPage))) = [iconPath]"
proof -
  let ?st = "enhanceInlineSVG iconSvg defaultSettings iconPage"
  let ?r = "\<lparr>originalFilter = [], modifiedShapes = [iconPath]\<rparr>"
  let ?off = "defaultSettings\<lparr>outlineEnabled := False\<rparr>"
  have rec: "enhancedElements ?st (idOf iconSvg) = Some ?r"
    by code_simp
  have off: "\<not> outlineEnabled ?off"
    by simp
  have d: "iconPath \<in> set (modifiedShapes ?r)"
    by simp
  have before: "attrs (nodes ?st (idOf iconPath)) ''stroke'' = Some ''#000000''"
    "\<not> truthy (attrs (nodes ?st (idOf iconPath)) ''data-shiny-original-stroke'')"
    by code_simp+
  from reenhance_without_outline [OF rec off d] before rec off
  show ?thesis
    by simp
qed

subsection \<open>Enhancing and restoring\<close>

text \<open>
  A stroke that was present and empty is not put back: \<open>removeOutlines\<close> sets the
  attribute only when the captured original is not empty, and removes it otherwise.
\<close>

theorem empty_stroke_not_restored:
  "(case enhance \<lparr>type = Inline, element = iconSvg\<rparr> defaultSettings blankStrokePage of
      Inl thrown \<Rightarrow> False
    | Inr enhanced \<Rightarrow>
        attrs (nodes blankStrokePage 2) ''stroke'' = Some [] \<and>
        attrs (nodes enhanced 2) ''stroke'' = Some ''#000000'' \<and>
        attrs (nodes (restore iconSvg enhanced) 2) ''stroke'' = None)"
  by code_simp

text \<open>
  C2, as amended. Take a graphic whose kind fits its element and which is treated in place,
  on a page the enhancer has not touched, with distinct elements. After one \<open>enhance\<close>
  and a \<open>restore\<close> of the graphic's element, the element and every element below it
  have their filter, paint order, tab index and classes back (so no marker class is left),
  and their stroke and stroke-width back except that an attribute that was present and empty
  may be gone; an attribute that was absent is absent again. The record of the graphic is
  deleted.
\<close>

theorem restore_after_enhance:
  assumes ids: "distinct (idOf g # map idOf (descendantNodes g))"
    and clean: "pristine g st"
    and kind: "kindFitsTag k (nodes st (idOf g))"
    and own: "treatedInPlace k g st"
    and enh: "enhance \<lparr>type = k, element = g\<rparr> s st = Inr st1"
    and m: "m \<in> set (idOf g # map idOf (descendantNodes g))"
  shows "restoredTo (nodes st m) (nodes (restore g st1) m) \<and>
         enhancedElements (restore g st1) (idOf g) = None"
proof -
  have fresh: "enhancedElements st (idOf g) = None"
    using clean by (simp add: pristine_def)
  have "restoredTo (nodes st m) (nodes (restore g st1) m)"
  proof (cases "enabled s")
    case False
    then have "st1 = st"
      using enh fresh by (simp add: enhance_def restore_absent)
    then show ?thesis
      using fresh by (simp add: restore_absent restoredTo_refl)
  next
    case True
    show ?thesis
    proof (cases "k = Inline \<or> k = Lottie")
      case True
      then have "st1 = enhanceInlineSVG g s st"
        using enh \<open>enabled s\<close> by (auto simp: enhance_def)
      moreover have "toLowerCase (tag (nodes st (idOf g))) = ''svg''"
        using kind True by (simp add: kindFitsTag_def)
      ultimately show ?thesis
        using inline_roundtrip [OF ids clean _ m] by simp
    next
      case False
      have "enhanceEmbeddedSVG g s st = Inr (enhanceImgSVG g s st)" if "k = Object \<or> k = Embed"
        using own that
        by (auto simp: treatedInPlace_def enhanceEmbeddedSVG_def embeddedAttempt_def bindE_def
            tryCatch_def split: sum.splits option.splits)
      then have "st1 = enhanceImgSVG g s st"
        using enh \<open>enabled s\<close> False by (cases k) (auto simp: enhance_def)
      moreover have "toLowerCase (tag (nodes st (idOf g))) \<noteq> ''svg''"
        using kind False by (simp add: kindFitsTag_def)
      ultimately show ?thesis
        using img_roundtrip [OF clean] by simp
    qed
  qed
  then show ?thesis
    by (simp add: restore_record)
qed

theorem restore_after_enhance_witness:
  "distinct (idOf iconSvg # map idOf (descendantNodes iconSvg)) \<and>
   pristine iconSvg iconPage \<and>
   kindFitsTag Inline (nodes iconPage (idOf iconSvg)) \<and>
   treatedInPlace Inline iconSvg iconPage \<and>
   enhance \<lparr>type = Inline, element = iconSvg\<rparr> defaultSettings iconPage
     = Inr (enhanceInlineSVG iconSvg defaultSettings iconPage) \<and>
   2 \<in> set (idOf iconSvg # map idOf (descendantNodes iconSvg)) \<and>
   attrs (nodes iconPage 2) ''stroke'' = None \<and>
   attrs (nodes (enhanceInlineSVG iconSvg defaultSettings iconPage) 2) ''stroke'' = Some ''#000000'' \<and>
   attrs (nodes (restore iconSvg (enhanceInlineSVG iconSvg defaultSettings iconPage)) 2) ''stroke''
     = None \<and>
   classes (nodes (restore iconSvg (enhanceInlineSVG iconSvg defaultSettings iconPage)) 2)
     = classes (nodes iconPage 2) \<and>
   enhancedElements (restore iconSvg (enhanceInlineSVG iconSvg defaultSettings iconPage))
     (idOf iconSvg) = None"
proof -
  let ?st1 = "enhanceInlineSVG iconSvg defaultSettings iconPage"
  have ids: "distinct (idOf iconSvg # map idOf (descendantNodes iconSvg))"
    by code_simp
  have clean: "pristine iconSvg iconPage"
    by code_simp
  have kind: "kindFitsTag Inline (nodes iconPage (idOf iconSvg))"
    by code_simp
  have own: "treatedInPlace Inline iconSvg iconPage"
    by (simp add: treatedInPlace_def)
  have enh: "enhance \<lparr>type = Inline, element = iconSvg\<rparr> defaultSettings iconPage = Inr ?st1"
    by (simp add: enhance_def defaultSettings_def)
  have m: "2 \<in> set (idOf iconSvg # map idOf (descendantNodes iconSvg))"
    by code_simp
  have before: "attrs (nodes iconPage 2) ''stroke'' = None"
    "attrs (nodes ?st1 2) ''stroke'' = Some ''#000000''"
    by code_simp+
  from restore_after_enhance [OF ids clean kind own enh m] before(1)
  have "attrs (nodes (restore iconSvg ?st1) 2) ''stroke'' = None"
    "classes (nodes (restore iconSvg ?st1) 2) = classes (nodes iconPage 2)"
    "enhancedElements (restore iconSvg ?st1) (idOf iconSvg) = None"
    by (simp_all add: restoredTo_def)
  then show ?thesis
    using ids clean kind own enh m before by blast
qed

text \<open>
  The theorem leaves one kind of graphic out. The logo is an object whose nested document
  can be read, so \<open>enhance\<close> treats the nested svg and keeps the record under that svg.
  \<open>restore\<close> of the object, under the comment \<open>Restore img/object/embed\<close>, finds no
  record and does nothing: the rect keeps the outline width and the marker class.
\<close>

lemma restore_misses_nested_svg:
  "(case enhance \<lparr>type = Object, element = logoObject\<rparr> defaultSettings logoPage of
      Inl thrown \<Rightarrow> False
    | Inr enhanced \<Rightarrow>
        attrs (nodes logoPage 7) ''stroke-width'' = Some ''1'' \<and>
        attrs (nodes (restore logoObject enhanced) 7) ''stroke-width'' = Some ''2'' \<and>
        ''shiny-outlined'' \<in> classes (nodes (restore logoObject enhanced) 7) \<and>
        ''shiny-enhanced'' \<in> classes (nodes (restore logoObject enhanced) 6))"
  by code_simp

subsection \<open>Insertions the watchers miss\<close>

text \<open>
  C1. A started detector watches an empty body. The page appends a div whose shadow root
  holds a span with a shadow root of its own: \<open>checkNodeForSVG\<close> starts a watcher on
  the shadow root of the div and does not look further in. The page then appends an svg to
  the shadow root of the span. No observer is registered there, so the svg is never
  reported, although it is in the document and the detector is still active. The initial
  pass walks nested shadow roots: a detector started on the resulting page reports the svg.
\<close>

theorem nested_shadow_insertion_unreported:
  "(let w = insertNode (ShadowRootT 2) (Node 3 [] None) (insertNode (ElementT 0) nestedHost emptyPage)
    in calls w = [] \<and>
       map ident (querySelectorAllDeep svgSel w) = [3] \<and>
       observer w = Some 0 \<and>
       observing w = [(0, ElementT 0), (1, ShadowRootT 1)] \<and>
       calls (start 1 (newDetector (page w) widgets)) = [(1, \<lparr>type = Inline, element = 3\<rparr>)])"
  by code_simp

text \<open>
  The same happens to an svg inside an added svg: \<open>checkNodeForSVG\<close> reports the
  added svg and returns.
\<close>

lemma inner_svg_of_added_svg_unreported:
  "calls (insertNode (ElementT 0) (Node 3 [Node 4 [] None] None) emptyPage)
     = [(1, \<lparr>type = Inline, element = 3\<rparr>)] \<and>
   map ident (querySelectorAllDeep svgSel
     (insertNode (ElementT 0) (Node 3 [Node 4 [] None] None) emptyPage)) = [3, 4]"
  by code_simp

subsection \<open>After stop\<close>

text \<open>
  C7. \<open>stop\<close> disconnects the document observer and replaces the map of shadow
  observers by an empty one; the shadow observers themselves stay registered, and so does
  the observer of a pending watch. On the page with a shadow host, an svg appended to the
  shadow root after \<open>stop\<close> is reported to the callback; on the page with a
  lottie-player, an svg rendered into the player after \<open>stop\<close> is reported too.
\<close>

theorem watchers_fire_after_stop:
  "(let w = stop (start 1 hostPage)
    in observer w = None \<and> calls w = [] \<and>
       observing w = [(1, ShadowRootT 1)] \<and>
       calls (insertNode (ShadowRootT 1) (Node 3 [] None) w)
         = [(1, \<lparr>type = Inline, element = 3\<rparr>)]) \<and>
   (let w = stop (start 1 playerPage)
    in observer w = None \<and> calls w = [] \<and>
       observing w = [(0, ElementT 6)] \<and>
       calls (insertNode (ElementT 6) (Node 3 [] None) w)
         = [(1, \<lparr>type = Lottie, element = 3\<rparr>)])"
  by code_simp

subsection \<open>Starting again\<close>

text \<open>
  The seen-set survives \<open>stop\<close>: on the page with one svg the first session reports
  the svg, and after \<open>stop\<close> and a new \<open>start\<close> the svg, still in the document,
  is not reported to the new callback.
\<close>

theorem restart_reports_nothing:
  "calls (start 1 svgPage) = [(1, \<lparr>type = Inline, element = 3\<rparr>)] \<and>
   detectedSVGs (stop (start 1 svgPage)) = {3} \<and>
   map ident (querySelectorAllDeep svgSel (stop (start 1 svgPage))) = [3] \<and>
   calls (start 2 (stop (start 1 svgPage))) = [(1, \<lparr>type = Inline, element = 3\<rparr>)]"
  by code_simp

text \<open>
  C8, as amended. \<open>stop\<close> keeps the seen-set. Take a session: a \<open>start\<close> and
  whatever happens on the page after it. An element reported at any point of the session,
  by the initial pass or by a watcher, is in the seen-set, and nothing reports it again
  later: not what happens after \<open>stop\<close>, not the initial pass of a new \<open>start\<close>,
  and not the watchers of the new session.
\<close>

theorem restart_does_not_report_again:
  assumes "x \<in> set (newCalls w (run during1 (start callback1 w)))"
  shows "detectedSVGs (stop (run during1 (start callback1 w)))
           = detectedSVGs (run during1 (start callback1 w)) \<and>
         element (snd x) \<in> detectedSVGs (run during1 (start callback1 w)) \<and>
         (\<forall>y\<in>set (newCalls (run during1 (start callback1 w))
                   (run during2 (start callback2
                      (run between (stop (run during1 (start callback1 w))))))).
            element (snd y) \<noteq> element (snd x))"
proof -
  let ?w1 = "run during1 (start callback1 w)"
  let ?w2 = "run between (stop ?w1)"
  let ?w3 = "run during2 (start callback2 ?w2)"
  have first: "fresh w ?w1"
    by (rule fresh_session)
  have "fresh ?w1 ?w2"
    using fresh_stop fresh_run by (rule fresh_trans)
  moreover have "fresh ?w2 ?w3"
    by (rule fresh_session)
  ultimately have later: "fresh ?w1 ?w3"
    by (rule fresh_trans)
  have seen: "detectedSVGs (stop ?w1) = detectedSVGs ?w1"
    using quiet_stop [of ?w1] by (simp add: quiet_def)
  have x: "element (snd x) \<in> detectedSVGs ?w1"
    using fresh_newCalls [OF first assms] by simp
  have "\<forall>y\<in>set (newCalls ?w1 ?w3). element (snd y) \<noteq> element (snd x)"
    using newCalls_later [OF first later assms] by blast
  with seen x show ?thesis
    by (intro conjI)
qed

theorem restart_does_not_report_again_witness:
  "(1, \<lparr>type = Inline, element = 4\<rparr>)
     \<in> set (newCalls svgPage (run [Append (ElementT 0) (Node 4 [] None)] (start 1 svgPage))) \<and>
   newCalls svgPage (run [Append (ElementT 0) (Node 4 [] None)] (start 1 svgPage))
     = [(1, \<lparr>type = Inline, element = 3\<rparr>), (1, \<lparr>type = Inline, element = 4\<rparr>)] \<and>
   newCalls (run [Append (ElementT 0) (Node 4 [] None)] (start 1 svgPage))
     (run [Append (ElementT 0) (Node 7 [] None)] (start 2
        (run [] (stop (run [Append (ElementT 0) (Node 4 [] None)] (start 1 svgPage))))))
     = [(2, \<lparr>type = Inline, element = 7\<rparr>)] \<and>
   map ident (querySelectorAllDeep svgSel
     (run [Append (ElementT 0) (Node 7 [] None)] (start 2
        (run [] (stop (run [Append (ElementT 0) (Node 4 [] None)] (start 1 svgPage)))))))
     = [3, 4, 7] \<and>
   4 \<in> detectedSVGs (run [Append (ElementT 0) (Node 4 [] None)] (start 1 svgPage)) \<and>
   4 \<notin> (\<lambda>y. element (snd y)) ` set
     (newCalls (run [Append (ElementT 0) (Node 4 [] None)] (start 1 svgPage))
        (run [Append (ElementT 0) (Node 7 [] None)] (start 2
           (run [] (stop (run [Append (ElementT 0) (Node 4 [] None)] (start 1 svgPage)))))))"
proof -
  let ?w1 = "run [Append (ElementT 0) (Node 4 [] None)] (start 1 svgPage)"
  let ?w3 = "run [Append (ElementT 0) (Node 7 [] None)] (start 2 (run [] (stop ?w1)))"
  have x: "(1, \<lparr>type = Inline, element = 4\<rparr>) \<in> set (newCalls svgPage ?w1)"
    by code_simp
  have first: "newCalls svgPage ?w1
     = [(1, \<lparr>type = Inline, element = 3\<rparr>), (1, \<lparr>type = Inline, element = 4\<rparr>)]"
    by code_simp
  have second: "newCalls ?w1 ?w3 = [(2, \<lparr>type = Inline, element = 7\<rparr>)]"
    by code_simp
  have there: "map ident (querySelectorAllDeep svgSel ?w3) = [3, 4, 7]"
    by code_simp
  from restart_does_not_report_again
    [OF x, of "[Append (ElementT 0) (Node 7 [] None)]" 2 "[]"]
  have "4 \<in> detectedSVGs ?w1"
    and "4 \<notin> (\<lambda>y. element (snd y)) ` set (newCalls ?w1 ?w3)"
    by auto
  with x first second there show ?thesis
    by (intro conjI)
qed

subsection \<open>Referenced and embedded graphics inserted later\<close>

text \<open>
  C10. Whatever the page appends and wherever, and whichever observers are registered, the
  callbacks that run for the insertion never report an element named img, object or embed:
  all they report are elements named svg. (The initial pass does report them: see the
  last line of the example.)
\<close>

theorem referenced_graphics_not_reported_on_insertion:
  assumes "tag (elementData w e) = ''img'' \<or> tag (elementData w e) = ''object'' \<or>
           tag (elementData w e) = ''embed''"
  shows "\<forall>y\<in>set (newCalls w (insertNode parent new w)).
           element (snd y) \<noteq> e \<and>
           toLowerCase (tag (elementData w (element (snd y)))) = ''svg''"
proof
  fix y assume y: "y \<in> set (newCalls w (insertNode parent new w))"
  from svgOnly_insertNode [of w parent new]
  obtain added where "calls (insertNode parent new w) = calls w @ added"
    and svg: "\<forall>y\<in>set added. toLowerCase (tag (elementData w (element (snd y)))) = ''svg''"
    unfolding svgOnly_def by blast
  then have "newCalls w (insertNode parent new w) = added"
    by (simp add: newCalls_def)
  with y svg have "toLowerCase (tag (elementData w (element (snd y)))) = ''svg''"
    by simp
  with assms not_svg show "element (snd y) \<noteq> e \<and>
           toLowerCase (tag (elementData w (element (snd y)))) = ''svg''"
    by auto
qed

theorem referenced_graphics_not_reported_on_insertion_witness:
  "(tag (elementData emptyPage 5) = ''img'' \<or> tag (elementData emptyPage 5) = ''object'' \<or>
    tag (elementData emptyPage 5) = ''embed'') \<and>
   newCalls emptyPage
     (insertNode (ElementT 0) (Node 1 [Node 5 [] None, Node 3 [] None] None) emptyPage)
     = [(1, \<lparr>type = Inline, element = 3\<rparr>)] \<and>
   map ident (querySelectorAllDeep imgSel
     (insertNode (ElementT 0) (Node 1 [Node 5 [] None, Node 3 [] None] None) emptyPage)) = [5] \<and>
   calls (start 1 (newDetector (Node 0 [Node 5 [] None] None) widgets))
     = [(1, \<lparr>type = Img, element = 5\<rparr>)] \<and>
   5 \<notin> (\<lambda>y. element (snd y)) ` set (newCalls emptyPage
        (insertNode (ElementT 0) (Node 1 [Node 5 [] None, Node 3 [] None] None) emptyPage))"
proof -
  have img: "tag (elementData emptyPage 5) = ''img'' \<or> tag (elementData emptyPage 5) = ''object'' \<or>
    tag (elementData emptyPage 5) = ''embed''"
    by code_simp
  have reported: "newCalls emptyPage
     (insertNode (ElementT 0) (Node 1 [Node 5 [] None, Node 3 [] None] None) emptyPage)
     = [(1, \<lparr>type = Inline, element = 3\<rparr>)]"
    by code_simp
  have there: "map ident (querySelectorAllDeep imgSel
     (insertNode (ElementT 0) (Node 1 [Node 5 [] None, Node 3 [] None] None) emptyPage)) = [5]"
    by code_simp
  have initial: "calls (start 1 (newDetector (Node 0 [Node 5 [] None] None) widgets))
     = [(1, \<lparr>type = Img, element = 5\<rparr>)]"
    by code_simp
  from referenced_graphics_not_reported_on_insertion
    [OF img, of "ElementT 0" "Node 1 [Node 5 [] None, Node 3 [] None] None"]
  have "5 \<notin> (\<lambda>y. element (snd y)) ` set (newCalls emptyPage
        (insertNode (ElementT 0) (Node 1 [Node 5 [] None, Node 3 [] None] None) emptyPage))"
    by auto
  with img reported there initial show ?thesis
    by (intro conjI)
qed

end
